theory Spec2Isabelle
  imports Complex_Main "HOL-Library.Multiset"
begin

section \<open>Python values\<close>

text \<open>
  The program is Python. Its integers are unbounded (\<open>int\<close>), its strings are \<open>string\<close>,
  its dictionaries are association lists in insertion order, and every \<open>raise\<close> is a value
  of \<open>py_error\<close> on the left of a sum.
\<close>

datatype py_error = KeyError | IndexError | ZeroDivisionError | ValueError

subsection \<open>Dictionaries\<close>

text \<open>
  \<open>d[k] = v\<close> keeps the position of a key that is present and appends a new key;
  \<open>del d[k]\<close> removes the key; \<open>d[k]\<close> and \<open>d.get(k)\<close> are \<open>map_of d k\<close>.
\<close>

fun dict_set :: "('k \<times> 'v) list \<Rightarrow> 'k \<Rightarrow> 'v \<Rightarrow> ('k \<times> 'v) list" where
  "dict_set [] k v = [(k, v)]"
| "dict_set ((k', v') # d) k v =
     (if k' = k then (k, v) # d else (k', v') # dict_set d k v)"

definition dict_del :: "('k \<times> 'v) list \<Rightarrow> 'k \<Rightarrow> ('k \<times> 'v) list" where
  "dict_del d k = filter (\<lambda>kv. fst kv \<noteq> k) d"

definition dict_keys :: "('k \<times> 'v) list \<Rightarrow> 'k list" where
  "dict_keys d = map fst d"

subsection \<open>Floats\<close>

text \<open>
  A Python float is an IEEE 754 binary64 number. It is modelled by its exact value, a
  rational, and every operation rounds the exact result to the nearest number with a
  53-bit significand, ties to even (\<open>fl\<close>). The exponent range is taken as unbounded:
  overflow to infinity, subnormal numbers and NaN are outside the model, and so are
  integers too large to convert.
\<close>

type_synonym pyfloat = rat

function bit_length :: "int \<Rightarrow> int" where
  "bit_length n = (if n \<le> 0 then 0 else 1 + bit_length (n div 2))"
  by pat_completeness auto
termination
  by (relation "measure nat") auto

definition round_half_even :: "int \<Rightarrow> int \<Rightarrow> int" where
  "round_half_even n d =
     (let f = n div d; r = n mod d
      in if 2 * r < d then f else if d < 2 * r then f + 1
         else if even f then f else f + 1)"

definition significand :: "int \<Rightarrow> int \<Rightarrow> int \<Rightarrow> int" where
  "significand p q e =
     (if 0 \<le> e then round_half_even p (q * 2 ^ nat e)
      else round_half_even (p * 2 ^ nat (- e)) q)"

definition scale2 :: "int \<Rightarrow> int \<Rightarrow> rat" where
  "scale2 m e =
     (if 0 \<le> e then of_int (m * 2 ^ nat e) else of_int m / of_int (2 ^ nat (- e)))"

definition fl_pos :: "int \<Rightarrow> int \<Rightarrow> rat" where
  "fl_pos p q =
     (let e0 = bit_length p - bit_length q - 53;
          e = (if 2 ^ 53 \<le> significand p q e0 then e0 + 1 else e0)
      in scale2 (significand p q e) e)"

definition fl :: "rat \<Rightarrow> pyfloat" where
  "fl x =
     (let (p, q) = quotient_of x
      in if p = 0 then 0 else if 0 < p then fl_pos p q else - fl_pos (- p) q)"

definition float_of_int :: "int \<Rightarrow> pyfloat" where
  "float_of_int n = fl (of_int n)"

definition fmul :: "pyfloat \<Rightarrow> pyfloat \<Rightarrow> pyfloat" where
  "fmul a b = fl (a * b)"

definition fadd :: "pyfloat \<Rightarrow> pyfloat \<Rightarrow> pyfloat" where
  "fadd a b = fl (a + b)"

definition fsub :: "pyfloat \<Rightarrow> pyfloat \<Rightarrow> pyfloat" where
  "fsub a b = fl (a - b)"

text \<open>\<open>a / b\<close> on two integers is the correctly rounded quotient, or ZeroDivisionError.\<close>

definition int_truediv :: "int \<Rightarrow> int \<Rightarrow> py_error + pyfloat" where
  "int_truediv a b =
     (if b = 0 then Inl ZeroDivisionError else Inr (fl (of_int a / of_int b)))"

text \<open>\<open>int(x)\<close> truncates toward zero.\<close>

definition py_int :: "pyfloat \<Rightarrow> int" where
  "py_int x = (if 0 \<le> x then \<lfloor>x\<rfloor> else - \<lfloor>- x\<rfloor>)"

subsection \<open>The random source\<close>

text \<open>
  Every draw of the module \<open>random\<close> is an explicit argument. \<open>random.random()\<close> is a
  float handed in by the caller; \<open>random.randint(a, b)\<close> and \<open>random.choice(xs)\<close> take an
  integer of entropy and reduce it into the range, so that every value of the range is
  the result of some draw and no draw leaves the range.
\<close>

definition randint :: "int \<Rightarrow> int \<Rightarrow> int \<Rightarrow> int" where
  "randint a b r = a + r mod (b - a + 1)"

definition choice :: "'a list \<Rightarrow> nat \<Rightarrow> py_error + 'a" where
  "choice xs r = (if xs = [] then Inl IndexError else Inr (xs ! (r mod length xs)))"

subsection \<open>Formatting integers\<close>

definition digit_char :: "int \<Rightarrow> char" where
  "digit_char d = ''0123456789'' ! nat d"

function str_pos :: "int \<Rightarrow> string" where
  "str_pos n =
     (if n < 10 then [digit_char n] else str_pos (n div 10) @ [digit_char (n mod 10)])"
  by pat_completeness auto
termination
  by (relation "measure nat") auto

definition str_int :: "int \<Rightarrow> string" where
  "str_int n = (if n < 0 then ''-'' @ str_pos (- n) else str_pos n)"

section \<open>Character system\<close>

record class_data =
  base_stats :: "(string \<times> int) list"
  class_abilities :: "string list"

record character =
  name :: string
  char_class :: string
  level :: int
  experience :: int
  experience_to_next :: int
  gold :: int
  stats :: "(string \<times> int) list"
  current_hp :: int
  max_hp :: int
  abilities :: "string list"
  inventory :: "(string \<times> (string \<times> string) list) list"
  quests_completed :: int
  monsters_defeated :: int

definition mk_stats :: "int \<Rightarrow> int \<Rightarrow> int \<Rightarrow> int \<Rightarrow> int \<Rightarrow> int \<Rightarrow> (string \<times> int) list" where
  "mk_stats s a i d m h =
     [(''strength'', s), (''agility'', a), (''intelligence'', i), (''defense'', d),
      (''magic_power'', m), (''max_hp'', h)]"

text \<open>\<open>_initialize_classes\<close>: the icon, description and lore texts are presentation only.\<close>

definition character_classes :: "(string \<times> class_data) list" where
  "character_classes =
     [(''swordsman'', \<lparr>base_stats = mk_stats 18 12 10 16 8 120,
         class_abilities = [''Sword Mastery'', ''Heavy Strike'', ''Parry'']\<rparr>),
      (''sniper'', \<lparr>base_stats = mk_stats 12 20 14 10 8 90,
         class_abilities = [''Eagle Eye'', ''Piercing Shot'', ''Stealth'']\<rparr>),
      (''magician'', \<lparr>base_stats = mk_stats 8 10 20 8 18 80,
         class_abilities = [''Fireball'', ''Magic Shield'', ''Arcane Blast'']\<rparr>),
      (''gunman'', \<lparr>base_stats = mk_stats 14 16 12 12 6 100,
         class_abilities = [''Rapid Fire'', ''Reload'', ''Precise Aim'']\<rparr>),
      (''archer'', \<lparr>base_stats = mk_stats 12 18 12 10 10 95,
         class_abilities = [''Multi-Shot'', ''Nature's Blessing'', ''Track'']\<rparr>),
      (''warrior'', \<lparr>base_stats = mk_stats 16 12 10 18 8 130,
         class_abilities = [''Shield Bash'', ''Taunt'', ''Endurance'']\<rparr>),
      (''hunter'', \<lparr>base_stats = mk_stats 14 16 14 12 8 110,
         class_abilities = [''Beast Lore'', ''Trap Setting'', ''Camouflage'']\<rparr>),
      (''assassin'', \<lparr>base_stats = mk_stats 12 20 12 8 10 85,
         class_abilities = [''Stealth Strike'', ''Poison Blade'', ''Shadow Step'']\<rparr>),
      (''hitman'', \<lparr>base_stats = mk_stats 14 16 16 10 6 95,
         class_abilities = [''Tactical Strike'', ''Equipment Mastery'', ''Cold Blood'']\<rparr>)]"

definition create_character :: "string \<Rightarrow> string \<Rightarrow> py_error + character" where
  "create_character nm cls =
     (case map_of character_classes cls of
        None \<Rightarrow> Inl ValueError
      | Some cd \<Rightarrow>
          (case map_of (base_stats cd) ''max_hp'' of
             None \<Rightarrow> Inl KeyError
           | Some h \<Rightarrow>
               Inr \<lparr>name = nm, char_class = cls, level = 1, experience = 0,
                    experience_to_next = 100, gold = 100, stats = base_stats cd,
                    current_hp = h, max_hp = h, abilities = class_abilities cd,
                    inventory = [(''weapons'', []), (''armor'', []), (''items'', []),
                                 (''spells'', [])],
                    quests_completed = 0, monsters_defeated = 0\<rparr>))"

text \<open>
  \<open>_calculate_stat_growth\<close>: one \<open>randint\<close> per stat of the class's base stats, in the
  order of the dictionary, \<open>max_hp\<close> skipped. \<open>rolls stat\<close> is the entropy of the draw made
  for \<open>stat\<close>.
\<close>

fun stat_growth_items :: "(string \<times> int) list \<Rightarrow> (string \<Rightarrow> int) \<Rightarrow> (string \<times> int) list" where
  "stat_growth_items [] rolls = []"
| "stat_growth_items ((stat, base_value) # rest) rolls =
     (if stat = ''max_hp'' then stat_growth_items rest rolls
      else (stat,
            (if 16 \<le> base_value then randint 2 4 (rolls stat)
             else if 12 \<le> base_value then randint 1 3 (rolls stat)
             else randint 1 2 (rolls stat))) # stat_growth_items rest rolls)"

definition calculate_stat_growth :: "class_data \<Rightarrow> (string \<Rightarrow> int) \<Rightarrow> (string \<times> int) list" where
  "calculate_stat_growth cd rolls = stat_growth_items (base_stats cd) rolls"

text \<open>The loop \<open>character['stats'][stat] += growth\<close>; reading a missing stat is a KeyError.\<close>

fun apply_growth :: "(string \<times> int) list \<Rightarrow> (string \<times> int) list \<Rightarrow> py_error + (string \<times> int) list" where
  "apply_growth st [] = Inr st"
| "apply_growth st ((stat, growth) # rest) =
     (case map_of st stat of
        None \<Rightarrow> Inl KeyError
      | Some v \<Rightarrow> apply_growth (dict_set st stat (v + growth)) rest)"

text \<open>
  \<open>level_up\<close> mutates the character in place and returns it; the model returns the new
  character, or the exception that left the function.
\<close>

definition level_up :: "character \<Rightarrow> (string \<Rightarrow> int) \<Rightarrow> int \<Rightarrow> py_error + character" where
  "level_up c rolls hp_roll =
     (let new_level = level c + 1
      in case map_of character_classes (char_class c) of
           None \<Rightarrow> Inl KeyError
         | Some cd \<Rightarrow>
             (case apply_growth (stats c) (calculate_stat_growth cd rolls) of
                Inl e \<Rightarrow> Inl e
              | Inr st \<Rightarrow>
                  (case map_of st ''max_hp'' of
                     None \<Rightarrow> Inl KeyError
                   | Some m \<Rightarrow>
                       (let hp_increase = randint 8 15 hp_roll;
                            new_max = m + hp_increase
                        in Inr (c\<lparr>level := new_level, experience := 0,
                                  experience_to_next := new_level * 100,
                                  stats := dict_set st ''max_hp'' new_max,
                                  max_hp := new_max, current_hp := new_max\<rparr>)))))"

text \<open>A character to run the functions on: the magician of the specification's scenario.\<close>

definition magician_data :: class_data where
  "magician_data = \<lparr>base_stats = mk_stats 8 10 20 8 18 80,
     class_abilities = [''Fireball'', ''Magic Shield'', ''Arcane Blast'']\<rparr>"

definition rin :: character where
  "rin = \<lparr>name = ''Rin'', char_class = ''magician'', level = 1, experience = 0,
     experience_to_next = 100, gold = 100, stats = mk_stats 8 10 20 8 18 80,
     current_hp = 80, max_hp = 80,
     abilities = [''Fireball'', ''Magic Shield'', ''Arcane Blast''],
     inventory = [(''weapons'', []), (''armor'', []), (''items'', []), (''spells'', [])],
     quests_completed = 0, monsters_defeated = 0\<rparr>"

section \<open>Combat system\<close>

text \<open>
  The enemy of a combat is the creature dictionary of the quest. \<open>defense\<close> and
  \<open>special_abilities\<close> are read with \<open>.get\<close>, so they may be absent; combat reads the
  list of abilities and never writes it.
\<close>

record enemy_rec =
  enemy_name :: string
  enemy_current_hp :: int
  enemy_max_hp :: int
  enemy_attack :: int
  enemy_defense :: "int option"
  enemy_special_abilities :: "string list option"

record combat_state =
  player :: character
  enemy :: enemy_rec
  turn :: string
  round_no :: int
  status :: string
  combat_log :: "string list"
  player_defending :: "bool option"

text \<open>The f-strings appended to the combat log.\<close>

definition attack_message :: "string \<Rightarrow> string \<Rightarrow> int \<Rightarrow> string" where
  "attack_message attacker target damage =
     attacker @ '' attacks '' @ target @ '' for '' @ str_int damage @ '' damage!''"

definition defeated_message :: "string \<Rightarrow> string" where
  "defeated_message who = who @ '' has been defeated!''"

definition defend_message :: "string \<Rightarrow> int \<Rightarrow> string" where
  "defend_message who heal_amount =
     who @ '' takes a defensive stance and recovers '' @ str_int heal_amount @ '' HP!''"

definition defense_message :: "string \<Rightarrow> string" where
  "defense_message who = who @ '''s defense reduces incoming damage!''"

definition special_damage_message :: "string \<Rightarrow> int \<Rightarrow> string \<Rightarrow> string" where
  "special_damage_message who total_damage ability =
     who @ '' takes '' @ str_int total_damage @ '' damage from '' @ ability @ ''!''"

definition stun_message :: "string \<Rightarrow> string" where
  "stun_message who = who @ '' is intimidated and loses next turn!''"

definition buff_message :: "string \<Rightarrow> string" where
  "buff_message who = who @ '''s attack power increases!''"

definition poison_message :: "int \<Rightarrow> string" where
  "poison_message poison_damage =
     ''Poison deals '' @ str_int poison_damage @ '' additional damage!''"

text \<open>\<open>player['stats'][k]\<close> and \<open>player['stats'].get(k, 0)\<close>.\<close>

definition stat :: "character \<Rightarrow> string \<Rightarrow> py_error + int" where
  "stat p k = (case map_of (stats p) k of None \<Rightarrow> Inl KeyError | Some v \<Rightarrow> Inr v)"

definition stat_or_0 :: "character \<Rightarrow> string \<Rightarrow> int" where
  "stat_or_0 p k = (case map_of (stats p) k of None \<Rightarrow> 0 | Some v \<Rightarrow> v)"

text \<open>
  \<open>_calculate_player_damage\<close>: \<open>variance_roll\<close> is the entropy of \<open>randint(-3, 3)\<close>,
  \<open>crit_roll\<close> the value of \<open>random.random()\<close>.
\<close>

definition calculate_player_damage :: "character \<Rightarrow> int \<Rightarrow> pyfloat \<Rightarrow> py_error + int" where
  "calculate_player_damage p variance_roll crit_roll =
     (case stat p ''strength'' of
        Inl e \<Rightarrow> Inl e
      | Inr strength \<Rightarrow>
          (let variance = randint (- 3) 3 variance_roll
           in case stat p ''agility'' of
                Inl e \<Rightarrow> Inl e
              | Inr agility \<Rightarrow>
                  (case int_truediv agility 100 of
                     Inl e \<Rightarrow> Inl e
                   | Inr ratio \<Rightarrow>
                       (let crit_chance = min (fl (2 / 10)) ratio
                        in if crit_roll < crit_chance
                           then Inr (max 1 (py_int (fmul (float_of_int strength) (fl (15 / 10)))
                                            + abs variance))
                           else Inr (max 1 (strength + variance))))))"

definition calculate_enemy_damage :: "enemy_rec \<Rightarrow> int \<Rightarrow> int" where
  "calculate_enemy_damage e variance_roll =
     max 1 (enemy_attack e + randint (- 2) 2 variance_roll)"

definition player_attack :: "combat_state \<Rightarrow> int \<Rightarrow> pyfloat \<Rightarrow> py_error + combat_state" where
  "player_attack cs variance_roll crit_roll =
     (case calculate_player_damage (player cs) variance_roll crit_roll of
        Inl e \<Rightarrow> Inl e
      | Inr base_damage \<Rightarrow>
          (let p = player cs; e = enemy cs;
               damage_dealt = max 1 (base_damage - (case enemy_defense e of None \<Rightarrow> 0 | Some d \<Rightarrow> d));
               hp = max 0 (enemy_current_hp e - damage_dealt);
               cs1 = cs\<lparr>enemy := e\<lparr>enemy_current_hp := hp\<rparr>,
                        combat_log := combat_log cs
                          @ [attack_message (name p) (enemy_name e) damage_dealt]\<rparr>
           in if hp \<le> 0
              then Inr (cs1\<lparr>status := ''victory'',
                            combat_log := combat_log cs1 @ [defeated_message (enemy_name e)]\<rparr>)
              else Inr (cs1\<lparr>turn := ''enemy''\<rparr>)))"

definition player_defend :: "combat_state \<Rightarrow> int \<Rightarrow> combat_state" where
  "player_defend cs heal_roll =
     (let p = player cs;
          heal_amount = randint 5 15 heal_roll
      in cs\<lparr>player := p\<lparr>current_hp := min (max_hp p) (current_hp p + heal_amount)\<rparr>,
            combat_log := combat_log cs @ [defend_message (name p) heal_amount],
            player_defending := Some True,
            turn := ''enemy''\<rparr>)"

text \<open>
  The draws of one enemy turn: the two \<open>random.random()\<close> of \<open>_determine_enemy_action\<close>,
  the entropy of \<open>randint(-2, 2)\<close> in \<open>_calculate_enemy_damage\<close> and of \<open>random.choice\<close>
  over the abilities. Each is made at most once in a turn.
\<close>

record enemy_draws =
  low_hp_roll :: pyfloat
  special_roll :: pyfloat
  variance_roll :: int
  ability_roll :: nat

definition has_special_abilities :: "enemy_rec \<Rightarrow> bool" where
  "has_special_abilities e =
     (case enemy_special_abilities e of None \<Rightarrow> False | Some xs \<Rightarrow> xs \<noteq> [])"

definition determine_enemy_action :: "enemy_rec \<Rightarrow> enemy_draws \<Rightarrow> py_error + string" where
  "determine_enemy_action e d =
     (case int_truediv (enemy_current_hp e) (enemy_max_hp e) of
        Inl err \<Rightarrow> Inl err
      | Inr enemy_hp_ratio \<Rightarrow>
          (let otherwise =
                 (if has_special_abilities e \<and> special_roll d < fl (2 / 10)
                  then ''special'' else ''attack'')
           in if enemy_hp_ratio < fl (3 / 10) \<and> has_special_abilities e
              then (if low_hp_roll d < fl (6 / 10) then Inr ''special'' else Inr otherwise)
              else Inr otherwise))"

record effect_profile =
  damage_multiplier :: "pyfloat option"
  effect :: "string option"
  hits :: "int option"
  description :: string

definition damage_effect :: "pyfloat \<Rightarrow> string \<Rightarrow> effect_profile" where
  "damage_effect m text = \<lparr>damage_multiplier = Some m, effect = None, hits = None, description = text\<rparr>"

definition status_effect :: "string \<Rightarrow> string \<Rightarrow> effect_profile" where
  "status_effect eff text = \<lparr>damage_multiplier = None, effect = Some eff, hits = None, description = text\<rparr>"

text \<open>The table \<open>ability_effects\<close> of \<open>_execute_enemy_special_ability\<close>, for an enemy called \<open>nm\<close>.\<close>

definition ability_effects :: "string \<Rightarrow> (string \<times> effect_profile) list" where
  "ability_effects nm =
     [(''Crushing Bite'', damage_effect (fl (15 / 10)) (nm @ '' delivers a crushing bite!'')),
      (''Intimidating Roar'', status_effect ''stun'' (nm @ '' lets out an intimidating roar!'')),
      (''Tusk Charge'', damage_effect (fl (13 / 10)) (nm @ '' charges with deadly tusks!'')),
      (''Pounce'', damage_effect (fl (14 / 10)) (nm @ '' pounces with feline grace!'')),
      (''Saber Strike'', damage_effect (fl (16 / 10)) (nm @ '' strikes with razor-sharp sabers!'')),
      (''Claw Swipe'', damage_effect (fl (12 / 10)) (nm @ '' swipes with massive claws!'')),
      (''Bear Hug'', status_effect ''grapple'' (nm @ '' attempts to grapple!'')),
      (''Heavy Slam'', damage_effect (fl (13 / 10)) (nm @ '' slams down with tremendous force!'')),
      (''Piercing Beak'', damage_effect (fl (15 / 10)) (nm @ '' strikes with its piercing beak!'')),
      (''Swift Strike'',
         \<lparr>damage_multiplier = Some (fl (11 / 10)), effect = None, hits = Some 2,
          description = nm @ '' strikes twice in rapid succession!''\<rparr>),
      (''Pack Howl'', status_effect ''buff'' (nm @ '' howls, boosting its strength!'')),
      (''Venomous Bite'',
         \<lparr>damage_multiplier = Some (fl (12 / 10)), effect = Some ''poison'', hits = None,
          description = nm @ '' bites with venomous fangs!''\<rparr>),
      (''Tail Whip'', damage_effect (fl (11 / 10)) (nm @ '' lashes out with its powerful tail!''))]"

text \<open>\<open>ability_effects.get(ability, default)\<close>.\<close>

definition lookup_effect :: "string \<Rightarrow> string \<Rightarrow> effect_profile" where
  "lookup_effect nm ability =
     (case map_of (ability_effects nm) ability of
        Some eff \<Rightarrow> eff
      | None \<Rightarrow> damage_effect (fl (12 / 10)) (nm @ '' uses '' @ ability @ ''!''))"

text \<open>
  The loop \<open>for _ in range(hits)\<close>: the pair is \<open>total_damage\<close> and the player's
  \<open>current_hp\<close>.
\<close>

fun hit_loop :: "nat \<Rightarrow> int \<Rightarrow> int \<Rightarrow> int \<times> int \<Rightarrow> int \<times> int" where
  "hit_loop 0 special_damage def (total_damage, hp) = (total_damage, hp)"
| "hit_loop (Suc n) special_damage def (total_damage, hp) =
     (let damage = max 1 (special_damage - def)
      in hit_loop n special_damage def (total_damage + damage, max 0 (hp - damage)))"

text \<open>The part of \<open>_execute_enemy_special_ability\<close> under the comment \<open>Apply effect\<close>.\<close>

definition apply_effect :: "combat_state \<Rightarrow> string \<Rightarrow> effect_profile \<Rightarrow> int \<Rightarrow> combat_state" where
  "apply_effect cs ability eff var_roll =
     (let p = player cs; e = enemy cs
      in case damage_multiplier eff of
           Some m \<Rightarrow>
             (let base_damage = calculate_enemy_damage e var_roll;
                  special_damage = py_int (fmul (float_of_int base_damage) m);
                  n = (case hits eff of None \<Rightarrow> 1 | Some h \<Rightarrow> h);
                  (total_damage, hp) =
                     hit_loop (nat n) special_damage (stat_or_0 p ''defense'') (0, current_hp p)
              in cs\<lparr>player := p\<lparr>current_hp := hp\<rparr>,
                    combat_log := combat_log cs
                      @ [special_damage_message (name p) total_damage ability]\<rparr>)
         | None \<Rightarrow>
             if effect eff = Some ''stun''
             then cs\<lparr>combat_log := combat_log cs @ [stun_message (name p)]\<rparr>
             else if effect eff = Some ''buff''
             then cs\<lparr>enemy := e\<lparr>enemy_attack :=
                                   py_int (fmul (float_of_int (enemy_attack e)) (fl (11 / 10)))\<rparr>,
                      combat_log := combat_log cs @ [buff_message (enemy_name e)]\<rparr>
             else if effect eff = Some ''poison''
             then (let poison_damage = 5
                   in cs\<lparr>player := p\<lparr>current_hp := max 0 (current_hp p - poison_damage)\<rparr>,
                      combat_log := combat_log cs @ [poison_message poison_damage]\<rparr>)
             else cs)"

definition execute_enemy_special_ability :: "combat_state \<Rightarrow> enemy_draws \<Rightarrow> py_error + combat_state" where
  "execute_enemy_special_ability cs d =
     (let e = enemy cs
      in case enemy_special_abilities e of
           None \<Rightarrow> Inr cs
         | Some xs \<Rightarrow>
             if xs = [] then Inr cs
             else (case choice xs (ability_roll d) of
                     Inl err \<Rightarrow> Inl err
                   | Inr ability \<Rightarrow>
                       (let eff = lookup_effect (enemy_name e) ability;
                            cs1 = cs\<lparr>combat_log := combat_log cs @ [description eff]\<rparr>
                        in Inr (apply_effect cs1 ability eff (variance_roll d)))))"

definition enemy_turn :: "combat_state \<Rightarrow> enemy_draws \<Rightarrow> py_error + combat_state" where
  "enemy_turn cs d =
     (let p = player cs; e = enemy cs
      in case determine_enemy_action e d of
           Inl err \<Rightarrow> Inl err
         | Inr action \<Rightarrow>
             if action = ''attack'' then
               (let damage0 = calculate_enemy_damage e (variance_roll d);
                    defending = (player_defending cs = Some True);
                    damage = (if defending then max 1 (damage0 div 2) else damage0);
                    cs1 = (if defending
                           then cs\<lparr>combat_log := combat_log cs @ [defense_message (name p)],
                                    player_defending := Some False\<rparr>
                           else cs);
                    final_damage = max 1 (damage - stat_or_0 p ''defense'');
                    hp = max 0 (current_hp p - final_damage);
                    cs2 = cs1\<lparr>player := p\<lparr>current_hp := hp\<rparr>,
                              combat_log := combat_log cs1
                                @ [attack_message (enemy_name e) (name p) final_damage]\<rparr>
                in if hp \<le> 0
                   then Inr (cs2\<lparr>status := ''defeat'',
                                 combat_log := combat_log cs2 @ [defeated_message (name p)]\<rparr>)
                   else Inr (cs2\<lparr>turn := ''player'', round_no := round_no cs2 + 1\<rparr>))
             else if action = ''special'' then
               (case execute_enemy_special_ability cs d of
                  Inl err \<Rightarrow> Inl err
                | Inr cs1 \<Rightarrow> Inr (cs1\<lparr>turn := ''player'', round_no := round_no cs1 + 1\<rparr>))
             else Inr (cs\<lparr>turn := ''player'', round_no := round_no cs + 1\<rparr>))"

text \<open>Combat states to run the functions on.\<close>

definition rex :: enemy_rec where
  "rex = \<lparr>enemy_name = ''Tyrannosaurus Rex'', enemy_current_hp = 200, enemy_max_hp = 200,
     enemy_attack = 25, enemy_defense = Some 15,
     enemy_special_abilities = Some [''Crushing Bite'', ''Intimidating Roar'']\<rparr>"

definition megalania :: enemy_rec where
  "megalania = \<lparr>enemy_name = ''Megalania'', enemy_current_hp = 160, enemy_max_hp = 160,
     enemy_attack = 19, enemy_defense = Some 16,
     enemy_special_abilities = Some [''Venomous Bite'', ''Tail Whip'']\<rparr>"

definition combat_of :: "character \<Rightarrow> enemy_rec \<Rightarrow> string \<Rightarrow> combat_state" where
  "combat_of p e t = \<lparr>player = p, enemy = e, turn = t, round_no = 1, status = ''ongoing'',
     combat_log = [], player_defending = None\<rparr>"

definition special_draws :: enemy_draws where
  "special_draws = \<lparr>low_hp_roll = 1 / 2, special_roll = 1 / 8, variance_roll = 2,
     ability_roll = 0\<rparr>"

section \<open>Quest system\<close>

text \<open>
  A creature is a dictionary whose \<open>special_abilities\<close> entry refers to a list object.
  \<open>dict.copy()\<close> is shallow: the copy is a new dictionary (a new record value) that holds
  the same reference. The list objects live in a store, so that \<open>append\<close> through one
  reference is seen through every other. \<open>max_hp\<close> and \<open>current_hp\<close> are absent from the
  templates and set on the instances.
\<close>

type_synonym addr = nat
type_synonym store = "addr \<Rightarrow> string list"

record creature =
  creature_name :: string
  creature_description :: string
  difficulty :: string
  hp :: int
  attack :: int
  defense :: int
  special_abilities :: addr
  lore :: string
  creature_max_hp :: "int option"
  creature_current_hp :: "int option"

record quest_template =
  template_type :: string
  difficulty_modifier :: pyfloat
  min_players :: "int option"
  max_players_allowed :: "int option"
  rewards_multiplier :: "pyfloat option"

record rewards =
  reward_gold :: int
  reward_experience :: int
  reward_items :: "string list"

record quest =
  quest_type :: string
  target :: creature
  quest_difficulty :: string
  multiplayer :: bool
  required_players :: "int option"
  reward :: rewards

definition solo_template :: "string \<Rightarrow> pyfloat \<Rightarrow> quest_template" where
  "solo_template ty m = \<lparr>template_type = ty, difficulty_modifier = m, min_players = None,
     max_players_allowed = None, rewards_multiplier = None\<rparr>"

text \<open>\<open>_initialize_quest_templates\<close>; the title and description formats are presentation only.\<close>

definition quest_templates :: "quest_template list" where
  "quest_templates =
     [solo_template ''hunt'' (fl 1), solo_template ''protect'' (fl (12 / 10)),
      solo_template ''investigate'' (fl (9 / 10)), solo_template ''urgent'' (fl (15 / 10))]"

text \<open>
  \<open>_initialize_ancient_creatures\<close> builds eight dictionaries, each with a fresh list of
  abilities: the lists are allocated at consecutive addresses from \<open>base\<close>.
\<close>

definition template :: "string \<Rightarrow> string \<Rightarrow> string \<Rightarrow> int \<Rightarrow> int \<Rightarrow> int \<Rightarrow> addr \<Rightarrow> string \<Rightarrow> creature" where
  "template nm descr diff h a d abil lr =
     \<lparr>creature_name = nm, creature_description = descr, difficulty = diff, hp = h, attack = a,
      defense = d, special_abilities = abil, lore = lr, creature_max_hp = None,
      creature_current_hp = None\<rparr>"

definition bestiary_abilities :: "string list list" where
  "bestiary_abilities =
     [[''Crushing Bite'', ''Intimidating Roar''], [''Tusk Charge'', ''Trumpet Call''],
      [''Pounce'', ''Saber Strike''], [''Claw Swipe'', ''Bear Hug''],
      [''Heavy Slam'', ''Thick Hide''], [''Piercing Beak'', ''Swift Strike''],
      [''Pack Howl'', ''Bite and Hold''], [''Venomous Bite'', ''Tail Whip'']]"

fun allocate :: "addr \<Rightarrow> string list list \<Rightarrow> store \<Rightarrow> store" where
  "allocate base [] st = st"
| "allocate base (xs # rest) st = allocate (Suc base) rest (st(base := xs))"

definition initialize_ancient_creatures :: "addr \<Rightarrow> store \<Rightarrow> store \<times> creature list" where
  "initialize_ancient_creatures base st =
     (allocate base bestiary_abilities st,
      [template ''Tyrannosaurus Rex'' ''The apex predator of the ancient world'' ''legendary''
         200 25 15 base ''The king of all predators has returned from extinction'',
       template ''Woolly Mammoth'' ''Massive ancient elephant with deadly tusks'' ''hard''
         180 20 18 (base + 1) ''These giants once roamed frozen lands'',
       template ''Saber-tooth Tiger'' ''Fierce predator with razor-sharp fangs'' ''medium''
         120 22 12 (base + 2) ''Swift and deadly hunter of the ice age'',
       template ''Cave Bear'' ''Enormous bear from prehistoric times'' ''medium''
         140 18 16 (base + 3) ''Massive bears that once ruled mountain caves'',
       template ''Giant Ground Sloth'' ''Deceptively dangerous prehistoric giant'' ''easy''
         100 15 14 (base + 4) ''Slow but incredibly strong ancient herbivore'',
       template ''Terror Bird'' ''Flightless predatory bird of enormous size'' ''medium''
         110 20 10 (base + 5) ''These giant birds were apex predators in their time'',
       template ''Dire Wolf'' ''Pack hunter larger than modern wolves'' ''easy''
         80 16 12 (base + 6) ''Ancestors of modern wolves, but much larger and fiercer'',
       template ''Megalania'' ''Giant monitor lizard with venomous bite'' ''hard''
         160 19 16 (base + 7) ''Massive lizard that dominated ancient Australia''])"

text \<open>
  \<open>_select_creature_for_player\<close>: the choice among the suitable templates, the shallow
  copy, and the scaling of the copy. It neither reads nor writes a list of abilities.
\<close>

definition select_creature_for_player :: "creature list \<Rightarrow> int \<Rightarrow> nat \<Rightarrow> py_error + creature" where
  "select_creature_for_player ancient_creatures lvl pick =
     (let suitable_creatures =
            (if lvl \<le> 2 then filter (\<lambda>c. difficulty c = ''easy'') ancient_creatures
             else if lvl \<le> 5
               then filter (\<lambda>c. difficulty c \<in> set [''easy'', ''medium'']) ancient_creatures
             else if lvl \<le> 8
               then filter (\<lambda>c. difficulty c \<in> set [''medium'', ''hard'']) ancient_creatures
             else ancient_creatures)
      in case choice suitable_creatures pick of
           Inl e \<Rightarrow> Inl e
         | Inr chosen \<Rightarrow>
             (let level_modifier = fadd (float_of_int 1) (fmul (float_of_int (lvl - 1)) (fl (1 / 10)));
                  new_hp = py_int (fmul (float_of_int (hp chosen)) level_modifier)
              in Inr (chosen\<lparr>hp := new_hp,
                        attack := py_int (fmul (float_of_int (attack chosen)) level_modifier),
                        defense := py_int (fmul (float_of_int (defense chosen)) level_modifier),
                        creature_max_hp := Some new_hp,
                        creature_current_hp := Some new_hp\<rparr>)))"

text \<open>
  \<open>random.sample(population, k)\<close>: \<open>k\<close> distinct positions, each drawn among the elements
  that are left; ValueError when the population is too small.
\<close>

fun sample_from :: "'a list \<Rightarrow> nat \<Rightarrow> (nat \<Rightarrow> nat) \<Rightarrow> 'a list" where
  "sample_from xs 0 picks = []"
| "sample_from xs (Suc k) picks =
     (if xs = [] then []
      else (let i = picks k mod length xs
            in xs ! i # sample_from (take i xs @ drop (Suc i) xs) k picks))"

definition sample :: "'a list \<Rightarrow> int \<Rightarrow> (nat \<Rightarrow> nat) \<Rightarrow> py_error + 'a list" where
  "sample xs k picks =
     (if k < 0 \<or> int (length xs) < k then Inl ValueError else Inr (sample_from xs (nat k) picks))"

record reward_draws =
  item_roll :: pyfloat
  count_roll :: int
  item_picks :: "nat \<Rightarrow> nat"

definition generate_reward_items :: "creature \<Rightarrow> reward_draws \<Rightarrow> py_error + string list" where
  "generate_reward_items c d =
     (let possible_items =
            [creature_name c @ '' Fang'', creature_name c @ '' Hide'', creature_name c @ '' Claw'',
             ''Ancient Bone Fragment'', ''Prehistoric Essence'', ''Monster Trophy'',
             ''Health Potion'', ''Strength Elixir''];
          num_items = randint 1 2 (count_roll d)
      in sample possible_items (min num_items (int (length possible_items))) (item_picks d))"

definition difficulty_multipliers :: "(string \<times> pyfloat) list" where
  "difficulty_multipliers =
     [(''easy'', fl (8 / 10)), (''medium'', fl 1), (''hard'', fl (13 / 10)),
      (''legendary'', fl (16 / 10))]"

definition get_or :: "('k \<times> 'v) list \<Rightarrow> 'k \<Rightarrow> 'v \<Rightarrow> 'v" where
  "get_or d k dflt = (case map_of d k of None \<Rightarrow> dflt | Some v \<Rightarrow> v)"

definition calculate_rewards :: "character \<Rightarrow> creature \<Rightarrow> pyfloat \<Rightarrow> reward_draws \<Rightarrow> py_error + rewards" where
  "calculate_rewards p c modifier d =
     (let base_gold = 50 + level p * 25;
          base_exp = 40 + level p * 20;
          multiplier = fmul (get_or difficulty_multipliers (difficulty c) (fl 1)) modifier;
          r = \<lparr>reward_gold = py_int (fmul (float_of_int base_gold) multiplier),
               reward_experience = py_int (fmul (float_of_int base_exp) multiplier),
               reward_items = []\<rparr>
      in if item_roll d < fl (3 / 10)
         then (case generate_reward_items c d of
                 Inl e \<Rightarrow> Inl e
               | Inr items \<Rightarrow> Inr (r\<lparr>reward_items := items\<rparr>))
         else Inr r)"

record quest_draws =
  template_pick :: nat
  creature_pick :: nat
  reward_rolls :: reward_draws

text \<open>
  \<open>generate_quest\<close> without its texts (title, description, giver, location) and without
  the optional enhancement by the story generator, which only adds text fields.
\<close>

definition generate_quest :: "creature list \<Rightarrow> character \<Rightarrow> quest_draws \<Rightarrow> py_error + quest" where
  "generate_quest ancient_creatures p d =
     (case choice quest_templates (template_pick d) of
        Inl e \<Rightarrow> Inl e
      | Inr tmpl \<Rightarrow>
          (case select_creature_for_player ancient_creatures (level p) (creature_pick d) of
             Inl e \<Rightarrow> Inl e
           | Inr c \<Rightarrow>
               (case calculate_rewards p c (difficulty_modifier tmpl) (reward_rolls d) of
                  Inl e \<Rightarrow> Inl e
                | Inr r \<Rightarrow>
                    Inr \<lparr>quest_type = template_type tmpl, target = c,
                         quest_difficulty = difficulty c, multiplayer = False,
                         required_players = None, reward = r\<rparr>)))"

text \<open>The multiplier table as the specification words it.\<close>

definition spec_difficulty_multiplier :: "string \<Rightarrow> pyfloat" where
  "spec_difficulty_multiplier d =
     (if d = ''easy'' then fl (8 / 10) else if d = ''medium'' then fl 1
      else if d = ''hard'' then fl (13 / 10) else fl (16 / 10))"

definition no_items :: reward_draws where
  "no_items = \<lparr>item_roll = 1 / 2, count_roll = 0, item_picks = (\<lambda>_. 0)\<rparr>"

definition saber_tooth :: creature where
  "saber_tooth = template ''Saber-tooth Tiger'' ''Fierce predator with razor-sharp fangs''
     ''medium'' 120 22 12 2 ''Swift and deadly hunter of the ice age''"

section \<open>Multiplayer system\<close>

text \<open>
  \<open>GameSession\<close> and the two dictionaries of \<open>MultiplayerSystem\<close>. A session object is
  reached only through \<open>active_sessions\<close>, so its mutation in place is the update of its
  entry. The session id (a prefix of a random UUID) and the clock (\<open>time.time()\<close>) are
  arguments.
\<close>

record game_session =
  session_id :: string
  host_player :: string
  players :: "character list"
  max_players :: int
  session_status :: string
  created_at :: pyfloat
  current_quest :: "quest option"
  shared_story_context :: "(string \<times> string) list list"

record multiplayer_system =
  active_sessions :: "(string \<times> game_session) list"
  player_sessions :: "(string \<times> string) list"

definition new_multiplayer_system :: multiplayer_system where
  "new_multiplayer_system = \<lparr>active_sessions = [], player_sessions = []\<rparr>"

definition create_session :: "multiplayer_system \<Rightarrow> character \<Rightarrow> int \<Rightarrow> string \<Rightarrow> pyfloat \<Rightarrow> string \<times> multiplayer_system" where
  "create_session ms host maxp sid now =
     (let session = \<lparr>session_id = sid, host_player = name host, players = [host],
                     max_players = maxp, session_status = ''waiting'', created_at = now,
                     current_quest = None, shared_story_context = []\<rparr>
      in (sid, ms\<lparr>active_sessions := dict_set (active_sessions ms) sid session,
                  player_sessions := dict_set (player_sessions ms) (name host) sid\<rparr>))"

definition join_session :: "multiplayer_system \<Rightarrow> string \<Rightarrow> character \<Rightarrow> bool \<times> multiplayer_system" where
  "join_session ms sid p =
     (case map_of (active_sessions ms) sid of
        None \<Rightarrow> (False, ms)
      | Some session \<Rightarrow>
          if max_players session \<le> int (length (players session)) then (False, ms)
          else if session_status session \<noteq> ''waiting'' then (False, ms)
          else if map_of (player_sessions ms) (name p) \<noteq> None then (False, ms)
          else (True,
                ms\<lparr>active_sessions :=
                     dict_set (active_sessions ms) sid
                       (session\<lparr>players := players session @ [p]\<rparr>),
                   player_sessions := dict_set (player_sessions ms) (name p) sid\<rparr>))"

definition leave_session :: "multiplayer_system \<Rightarrow> string \<Rightarrow> py_error + bool \<times> multiplayer_system" where
  "leave_session ms player_name =
     (case map_of (player_sessions ms) player_name of
        None \<Rightarrow> Inr (False, ms)
      | Some sid \<Rightarrow>
          (case map_of (active_sessions ms) sid of
             None \<Rightarrow> Inl KeyError
           | Some session \<Rightarrow>
               (let remaining = filter (\<lambda>p. name p \<noteq> player_name) (players session);
                    session1 = session\<lparr>players := remaining\<rparr>;
                    index1 = dict_del (player_sessions ms) player_name
                in if host_player session1 = player_name
                   then (case remaining of
                           first_player # _ \<Rightarrow>
                             Inr (True,
                                  ms\<lparr>active_sessions :=
                                       dict_set (active_sessions ms) sid
                                         (session1\<lparr>host_player := name first_player\<rparr>),
                                     player_sessions := index1\<rparr>)
                         | [] \<Rightarrow>
                             Inr (True,
                                  ms\<lparr>active_sessions := dict_del (active_sessions ms) sid,
                                     player_sessions := index1\<rparr>))
                   else if remaining = []
                   then Inr (True,
                             ms\<lparr>active_sessions := dict_del (active_sessions ms) sid,
                                player_sessions := index1\<rparr>)
                   else Inr (True,
                             ms\<lparr>active_sessions := dict_set (active_sessions ms) sid session1,
                                player_sessions := index1\<rparr>))))"

definition start_session :: "multiplayer_system \<Rightarrow> string \<Rightarrow> bool \<times> multiplayer_system" where
  "start_session ms sid =
     (case map_of (active_sessions ms) sid of
        None \<Rightarrow> (False, ms)
      | Some session \<Rightarrow>
          if session_status session \<noteq> ''waiting'' then (False, ms)
          else if length (players session) < 2 then (False, ms)
          else (True,
                ms\<lparr>active_sessions :=
                     dict_set (active_sessions ms) sid
                       (session\<lparr>session_status := ''in_progress''\<rparr>)\<rparr>))"

definition get_session :: "multiplayer_system \<Rightarrow> string \<Rightarrow> game_session option" where
  "get_session ms sid = map_of (active_sessions ms) sid"

definition get_player_session :: "multiplayer_system \<Rightarrow> string \<Rightarrow> game_session option" where
  "get_player_session ms player_name =
     (case map_of (player_sessions ms) player_name of
        None \<Rightarrow> None
      | Some sid \<Rightarrow> map_of (active_sessions ms) sid)"

text \<open>\<open>cleanup_expired_sessions\<close>: the inner loop over the roster, then the outer loop.\<close>

fun remove_player_mappings :: "character list \<Rightarrow> (string \<times> string) list \<Rightarrow> (string \<times> string) list" where
  "remove_player_mappings [] index = index"
| "remove_player_mappings (p # ps) index =
     remove_player_mappings ps
       (if map_of index (name p) \<noteq> None then dict_del index (name p) else index)"

fun remove_expired :: "string list \<Rightarrow> multiplayer_system \<Rightarrow> py_error + multiplayer_system" where
  "remove_expired [] ms = Inr ms"
| "remove_expired (sid # sids) ms =
     (case map_of (active_sessions ms) sid of
        None \<Rightarrow> Inl KeyError
      | Some session \<Rightarrow>
          remove_expired sids
            (ms\<lparr>player_sessions := remove_player_mappings (players session) (player_sessions ms),
               active_sessions := dict_del (active_sessions ms) sid\<rparr>))"

definition cleanup_expired_sessions :: "multiplayer_system \<Rightarrow> pyfloat \<Rightarrow> int \<Rightarrow> py_error + int \<times> multiplayer_system" where
  "cleanup_expired_sessions ms current_time max_age_hours =
     (let expired_sessions =
            map fst (filter (\<lambda>(sid, session).
                               of_int (max_age_hours * 3600) < fsub current_time (created_at session))
                            (active_sessions ms))
      in case remove_expired expired_sessions ms of
           Inl e \<Rightarrow> Inl e
         | Inr ms' \<Rightarrow> Inr (int (length expired_sessions), ms'))"

text \<open>The states a \<open>MultiplayerSystem\<close> can be in: whatever the five operations build.\<close>

inductive reachable :: "multiplayer_system \<Rightarrow> bool" where
  initial: "reachable new_multiplayer_system"
| create: "reachable ms \<Longrightarrow> reachable (snd (create_session ms host maxp sid now))"
| join: "reachable ms \<Longrightarrow> reachable (snd (join_session ms sid p))"
| leave: "reachable ms \<Longrightarrow> leave_session ms player_name = Inr (b, ms') \<Longrightarrow> reachable ms'"
| start: "reachable ms \<Longrightarrow> reachable (snd (start_session ms sid))"
| cleanup: "reachable ms \<Longrightarrow> cleanup_expired_sessions ms current_time max_age_hours = Inr (n, ms')
            \<Longrightarrow> reachable ms'"

text \<open>
  The sessions whose roster holds a name, and the two halves of the roster invariant for
  that name: it is on at most one roster, and the index maps it to a session id exactly
  when that session exists and has the name on its roster.
\<close>

definition sessions_with :: "multiplayer_system \<Rightarrow> string \<Rightarrow> string list" where
  "sessions_with ms n =
     map fst (filter (\<lambda>(sid, session). n \<in> set (map name (players session)))
                     (active_sessions ms))"

definition on_at_most_one_roster :: "multiplayer_system \<Rightarrow> string \<Rightarrow> bool" where
  "on_at_most_one_roster ms n = (length (sessions_with ms n) \<le> 1)"

definition index_exact :: "multiplayer_system \<Rightarrow> string \<Rightarrow> bool" where
  "index_exact ms n =
     (case map_of (player_sessions ms) n of
        None \<Rightarrow> sessions_with ms n = []
      | Some sid \<Rightarrow> set (sessions_with ms n) = {sid})"

text \<open>
  When \<open>join_session\<close> refuses, as the specification words it: the session id is
  unknown, the roster is full (its size equals \<open>max_players\<close>), the status is not
  \<open>waiting\<close>, or the player's name is in the index. \<open>join_refusal\<close> is the same with the
  guard of the code, size at least \<open>max_players\<close>.
\<close>

definition claimed_join_refusal :: "multiplayer_system \<Rightarrow> string \<Rightarrow> character \<Rightarrow> bool" where
  "claimed_join_refusal ms sid p =
     (case map_of (active_sessions ms) sid of
        None \<Rightarrow> True
      | Some session \<Rightarrow>
          int (length (players session)) = max_players session
          \<or> session_status session \<noteq> ''waiting''
          \<or> map_of (player_sessions ms) (name p) \<noteq> None)"

definition join_refusal :: "multiplayer_system \<Rightarrow> string \<Rightarrow> character \<Rightarrow> bool" where
  "join_refusal ms sid p =
     (case map_of (active_sessions ms) sid of
        None \<Rightarrow> True
      | Some session \<Rightarrow>
          max_players session \<le> int (length (players session))
          \<or> session_status session \<noteq> ''waiting''
          \<or> map_of (player_sessions ms) (name p) \<noteq> None)"

text \<open>
  The invariant of the data model: no roster is larger than the \<open>max_players\<close> of its
  session. \<open>reachable_with_capacity\<close> are the states that the five operations build when
  every session is created with room for its host (\<open>max_players\<close> at least 1).
\<close>

definition rosters_within_capacity :: "multiplayer_system \<Rightarrow> bool" where
  "rosters_within_capacity ms =
     list_all (\<lambda>(sid, session). int (length (players session)) \<le> max_players session)
              (active_sessions ms)"

inductive reachable_with_capacity :: "multiplayer_system \<Rightarrow> bool" where
  initial: "reachable_with_capacity new_multiplayer_system"
| create: "reachable_with_capacity ms \<Longrightarrow> 1 \<le> maxp
           \<Longrightarrow> reachable_with_capacity (snd (create_session ms host maxp sid now))"
| join: "reachable_with_capacity ms \<Longrightarrow> reachable_with_capacity (snd (join_session ms sid p))"
| leave: "reachable_with_capacity ms \<Longrightarrow> leave_session ms player_name = Inr (b, ms')
          \<Longrightarrow> reachable_with_capacity ms'"
| start: "reachable_with_capacity ms \<Longrightarrow> reachable_with_capacity (snd (start_session ms sid))"
| cleanup: "reachable_with_capacity ms
            \<Longrightarrow> cleanup_expired_sessions ms current_time max_age_hours = Inr (n, ms')
            \<Longrightarrow> reachable_with_capacity ms'"

text \<open>Players and lobbies to run the functions on.\<close>

definition hero :: "string \<Rightarrow> character" where
  "hero nm = rin\<lparr>name := nm\<rparr>"

definition lobby :: "int \<Rightarrow> multiplayer_system" where
  "lobby maxp = snd (create_session new_multiplayer_system (hero ''Alice'') maxp ''AAAAAAAA'' 0)"

definition full_lobby :: multiplayer_system where
  "full_lobby = snd (join_session (lobby 2) ''AAAAAAAA'' (hero ''Bob''))"

definition two_lobbies :: multiplayer_system where
  "two_lobbies = snd (create_session (lobby 4) (hero ''Alice'') 4 ''BBBBBBBB'' 1)"

subsection \<open>Team quests\<close>

definition team_template :: "string \<Rightarrow> int \<Rightarrow> int \<Rightarrow> pyfloat \<Rightarrow> pyfloat \<Rightarrow> quest_template" where
  "team_template ty lo hi dm rm = \<lparr>template_type = ty, difficulty_modifier = dm,
     min_players = Some lo, max_players_allowed = Some hi, rewards_multiplier = Some rm\<rparr>"

definition multiplayer_quests :: "quest_template list" where
  "multiplayer_quests =
     [team_template ''raid'' 2 4 (fl (15 / 10)) (fl (13 / 10)),
      team_template ''siege'' 3 5 (fl 2) (fl (15 / 10)),
      team_template ''rescue'' 2 4 (fl (13 / 10)) (fl (12 / 10)),
      team_template ''defense'' 2 6 (fl (14 / 10)) (fl (125 / 100))]"

text \<open>
  \<open>_scale_creature_for_multiplayer\<close> writes the scaled numbers into the dictionary it is
  given and appends to the list that the dictionary refers to.
\<close>

definition scale_creature_for_multiplayer :: "store \<Rightarrow> creature \<Rightarrow> int \<Rightarrow> pyfloat \<Rightarrow> store \<times> creature" where
  "scale_creature_for_multiplayer st c num_players dm =
     (let player_scaling =
            fadd (float_of_int 1) (fmul (float_of_int (num_players - 1)) (fl (4 / 10)));
          total_modifier = fmul player_scaling dm;
          new_hp = py_int (fmul (float_of_int (hp c)) total_modifier);
          c' = c\<lparr>hp := new_hp, creature_max_hp := Some new_hp, creature_current_hp := Some new_hp,
                  attack := py_int (fmul (float_of_int (attack c))
                                         (fmul total_modifier (fl (8 / 10)))),
                  defense := py_int (fmul (float_of_int (defense c))
                                          (fmul total_modifier (fl (6 / 10))))\<rparr>;
          a = special_abilities c';
          st1 = (if 3 \<le> num_players then st(a := st a @ [''Area Attack'']) else st);
          st2 = (if 4 \<le> num_players then st1(a := st1 a @ [''Regeneration'']) else st1)
      in (st2, c'))"

record team_draws =
  team_template_pick :: nat
  team_creature_pick :: nat
  bonus_roll :: pyfloat
  bonus_count_roll :: int
  bonus_picks :: "nat \<Rightarrow> nat"

definition average_level :: "character list \<Rightarrow> py_error + pyfloat" where
  "average_level ps = int_truediv (sum_list (map level ps)) (int (length ps))"

definition calculate_multiplayer_rewards :: "character list \<Rightarrow> creature \<Rightarrow> pyfloat \<Rightarrow> team_draws \<Rightarrow> py_error + rewards" where
  "calculate_multiplayer_rewards ps c rm d =
     (case average_level ps of
        Inl e \<Rightarrow> Inl e
      | Inr avg_level \<Rightarrow>
          (let base_gold = fadd (float_of_int 40) (fmul avg_level (float_of_int 20));
               base_exp = fadd (float_of_int 30) (fmul avg_level (float_of_int 15));
               multiplier = fmul (get_or difficulty_multipliers (difficulty c) (fl 1)) rm;
               r = \<lparr>reward_gold = py_int (fmul base_gold multiplier),
                    reward_experience = py_int (fmul base_exp multiplier),
                    reward_items = []\<rparr>
           in if bonus_roll d < fl (5 / 10)
              then (case sample [''Teamwork Medal'', ''Cooperation Token'', ''Guild Honor Badge'',
                                 ''Multiplayer Achievement'']
                                (randint 1 2 (bonus_count_roll d)) (bonus_picks d) of
                      Inl e \<Rightarrow> Inl e
                    | Inr items \<Rightarrow> Inr (r\<lparr>reward_items := items\<rparr>))
              else Inr r))"

text \<open>
  \<open>generate_multiplayer_quest\<close> without the texts of the quest. It builds its own
  \<open>QuestSystem\<close>, whose bestiary is allocated at \<open>base\<close>; the result carries the store and
  that bestiary as the call leaves them.
\<close>

definition generate_multiplayer_quest :: "store \<Rightarrow> addr \<Rightarrow> game_session \<Rightarrow> team_draws \<Rightarrow> py_error + store \<times> creature list \<times> quest" where
  "generate_multiplayer_quest st base session d =
     (let (st1, ancient_creatures) = initialize_ancient_creatures base st;
          num_players = int (length (players session));
          suitable_quests =
            filter (\<lambda>q. case (min_players q, max_players_allowed q) of
                           (Some lo, Some hi) \<Rightarrow> lo \<le> num_players \<and> num_players \<le> hi
                         | _ \<Rightarrow> False)
                   multiplayer_quests
      in case (if suitable_quests = [] then choice quest_templates (team_template_pick d)
               else choice suitable_quests (team_template_pick d)) of
           Inl e \<Rightarrow> Inl e
         | Inr tmpl \<Rightarrow>
             (case average_level (players session) of
                Inl e \<Rightarrow> Inl e
              | Inr avg_level \<Rightarrow>
                  (case select_creature_for_player ancient_creatures (py_int avg_level)
                          (team_creature_pick d) of
                     Inl e \<Rightarrow> Inl e
                   | Inr c0 \<Rightarrow>
                       (let (st2, c) = scale_creature_for_multiplayer st1 c0 num_players
                                         (difficulty_modifier tmpl)
                        in case calculate_multiplayer_rewards (players session) c
                                  (case rewards_multiplier tmpl of None \<Rightarrow> fl 1 | Some m \<Rightarrow> m) d of
                             Inl e \<Rightarrow> Inl e
                           | Inr r \<Rightarrow>
                               Inr (st2, ancient_creatures,
                                    \<lparr>quest_type = template_type tmpl, target = c,
                                     quest_difficulty = difficulty c, multiplayer = True,
                                     required_players =
                                       Some (case min_players tmpl of None \<Rightarrow> 2 | Some n \<Rightarrow> n),
                                     reward = r\<rparr>)))))"

subsection \<open>Team combat\<close>

text \<open>
  \<open>_determine_turn_order\<close>. \<open>sorted(players, key=..., reverse=True)\<close> first computes the
  key of every player (a KeyError for a player without \<open>agility\<close>) and is stable: the keys
  descend and players of equal key keep their order.
\<close>

fun agilities :: "character list \<Rightarrow> py_error + int list" where
  "agilities [] = Inr []"
| "agilities (p # ps) =
     (case stat p ''agility'' of
        Inl e \<Rightarrow> Inl e
      | Inr a \<Rightarrow> (case agilities ps of Inl e \<Rightarrow> Inl e | Inr ks \<Rightarrow> Inr (a # ks)))"

fun interleave_enemy :: "string list \<Rightarrow> string list" where
  "interleave_enemy [] = []"
| "interleave_enemy (player_name # rest) = player_name # ''enemy'' # interleave_enemy rest"

definition determine_turn_order :: "character list \<Rightarrow> py_error + string list" where
  "determine_turn_order ps =
     (case agilities ps of
        Inl e \<Rightarrow> Inl e
      | Inr keys \<Rightarrow>
          (let sorted_players = map snd (sort_key (\<lambda>kp. - fst kp) (zip keys ps));
               turn_order = map name sorted_players
           in Inr (interleave_enemy turn_order)))"

text \<open>A sniper (agility 20), a party of three, and the draws of a team quest.\<close>

definition kai :: character where
  "kai = \<lparr>name = ''Kai'', char_class = ''sniper'', level = 1, experience = 0,
     experience_to_next = 100, gold = 100, stats = mk_stats 12 20 14 10 8 90,
     current_hp = 90, max_hp = 90,
     abilities = [''Eagle Eye'', ''Piercing Shot'', ''Stealth''],
     inventory = [(''weapons'', []), (''armor'', []), (''items'', []), (''spells'', [])],
     quests_completed = 0, monsters_defeated = 0\<rparr>"

definition party_of_three :: game_session where
  "party_of_three = \<lparr>session_id = ''AAAAAAAA'', host_player = ''Rin'',
     players = [rin, kai, hero ''Bob''], max_players = 4, session_status = ''in_progress'',
     created_at = 0, current_quest = None, shared_story_context = []\<rparr>"

definition team_quest_draws :: team_draws where
  "team_quest_draws = \<lparr>team_template_pick = 0, team_creature_pick = 0, bonus_roll = 3 / 4,
     bonus_count_roll = 0, bonus_picks = (\<lambda>_. 0)\<rparr>"

definition empty_store :: store where
  "empty_store = (\<lambda>_. [])"

section \<open>Facts about dictionaries and draws\<close>

lemma map_of_dict_set:
  "map_of (dict_set d k v) k' = (if k' = k then Some v else map_of d k')"
  by (induction d) auto

lemma map_fst_dict_set:
  "map fst (dict_set d k v) = (if k \<in> fst ` set d then map fst d else map fst d @ [k])"
  by (induction d) (force simp: image_iff)+

lemma dict_keys_dict_set:
  "set (dict_keys (dict_set d k v)) = insert k (set (dict_keys d))"
  by (auto simp: dict_keys_def map_fst_dict_set simp flip: set_map)

lemma randint_range:
  assumes "a \<le> b"
  shows "a \<le> randint a b r \<and> randint a b r \<le> b"
proof -
  have pos: "0 < b - a + 1" using assms by simp
  have ge: "0 \<le> r mod (b - a + 1)" using pos by (rule pos_mod_sign)
  have lt: "r mod (b - a + 1) < b - a + 1" using pos by (rule pos_mod_bound)
  show ?thesis unfolding randint_def using ge lt by linarith
qed

lemma choice_mem:
  assumes "choice xs r = Inr t"
  shows "t \<in> set xs"
proof -
  from assms have ne: "xs \<noteq> []" and t: "t = xs ! (r mod length xs)"
    by (auto simp: choice_def split: if_splits)
  from ne have "r mod length xs < length xs" by simp
  with t show ?thesis by simp
qed

section \<open>Level-up\<close>

lemma stat_growth_items_keys:
  "set (dict_keys (stat_growth_items bs rolls)) \<subseteq> set (dict_keys bs) - {''max_hp''}"
  by (induction bs rolls rule: stat_growth_items.induct) (auto simp: dict_keys_def)

lemma apply_growth_ok:
  "set (dict_keys g) \<subseteq> set (dict_keys st) \<Longrightarrow> ''max_hp'' \<notin> set (dict_keys g) \<Longrightarrow>
   \<exists>st'. apply_growth st g = Inr st'
       \<and> map_of st' ''max_hp'' = map_of st ''max_hp''
       \<and> set (dict_keys st') = set (dict_keys st)"
proof (induction g arbitrary: st)
  case Nil
  then show ?case by simp
next
  case (Cons kg g)
  obtain k gr where kg: "kg = (k, gr)" by (cases kg)
  from Cons.prems kg have k_in: "k \<in> set (dict_keys st)" and k_ne: "k \<noteq> ''max_hp''"
    by (auto simp: dict_keys_def)
  from k_in obtain v where v: "map_of st k = Some v"
    by (cases "map_of st k") (auto simp: dict_keys_def map_of_eq_None_iff)
  let ?st1 = "dict_set st k (v + gr)"
  have keys1: "set (dict_keys ?st1) = set (dict_keys st)"
    using k_in by (auto simp: dict_keys_dict_set)
  have "set (dict_keys g) \<subseteq> set (dict_keys ?st1)" "''max_hp'' \<notin> set (dict_keys g)"
    using Cons.prems kg keys1 by (auto simp: dict_keys_def)
  from Cons.IH[OF this] obtain st' where
    st': "apply_growth ?st1 g = Inr st'"
         "map_of st' ''max_hp'' = map_of ?st1 ''max_hp''"
         "set (dict_keys st') = set (dict_keys ?st1)"
    by blast
  have "map_of ?st1 ''max_hp'' = map_of st ''max_hp''"
    using k_ne by (simp add: map_of_dict_set)
  with st' keys1 v kg show ?case by simp
qed

text \<open>\<open>create_character\<close> builds characters of the shape that \<open>level_up\<close> needs.\<close>

lemma create_character_well_formed:
  assumes "create_character nm cls = Inr c"
  shows "\<exists>cd. map_of character_classes (char_class c) = Some cd
            \<and> set (dict_keys (base_stats cd)) \<subseteq> set (dict_keys (stats c))
            \<and> map_of (stats c) ''max_hp'' = Some (max_hp c)"
  using assms
  by (auto simp: create_character_def split: option.splits)

text \<open>
  C6. For a character whose class is in the catalogue, whose stats hold every stat of the
  class and whose \<open>max_hp\<close> is the \<open>max_hp\<close> of its stats (as \<open>create_character\<close> builds it
  and \<open>level_up\<close> leaves it), \<open>level_up\<close> returns a character with the level one higher,
  experience 0, \<open>experience_to_next\<close> the new level times 100, \<open>max_hp\<close> strictly larger,
  by an integer between 8 and 15, and \<open>current_hp\<close> equal to \<open>max_hp\<close>.
\<close>

theorem level_up_effects:
  assumes cls: "map_of character_classes (char_class c) = Some cd"
      and keys: "set (dict_keys (base_stats cd)) \<subseteq> set (dict_keys (stats c))"
      and hp: "map_of (stats c) ''max_hp'' = Some (max_hp c)"
  shows "\<exists>c'. level_up c rolls hp_roll = Inr c'
           \<and> level c' = level c + 1
           \<and> experience c' = 0
           \<and> experience_to_next c' = level c' * 100
           \<and> max_hp c < max_hp c'
           \<and> 8 \<le> max_hp c' - max_hp c \<and> max_hp c' - max_hp c \<le> 15
           \<and> map_of (stats c') ''max_hp'' = Some (max_hp c')
           \<and> current_hp c' = max_hp c'
           \<and> char_class c' = char_class c
           \<and> set (dict_keys (stats c')) = set (dict_keys (stats c))"
proof -
  let ?g = "calculate_stat_growth cd rolls"
  have g_keys: "set (dict_keys ?g) \<subseteq> set (dict_keys (base_stats cd)) - {''max_hp''}"
    unfolding calculate_stat_growth_def by (rule stat_growth_items_keys)
  then have "set (dict_keys ?g) \<subseteq> set (dict_keys (stats c))" "''max_hp'' \<notin> set (dict_keys ?g)"
    using keys by auto
  from apply_growth_ok[OF this] obtain st where
    st: "apply_growth (stats c) ?g = Inr st" "map_of st ''max_hp'' = map_of (stats c) ''max_hp''"
        "set (dict_keys st) = set (dict_keys (stats c))"
    by blast
  have m: "map_of st ''max_hp'' = Some (max_hp c)" using st hp by simp
  then have "''max_hp'' \<in> set (dict_keys st)"
    by (auto simp: dict_keys_def dest: map_of_SomeD intro: rev_image_eqI)
  then have k: "set (dict_keys (dict_set st ''max_hp'' v)) = set (dict_keys (stats c))" for v
    using st(3) by (auto simp: dict_keys_dict_set)
  have r: "8 \<le> randint 8 15 hp_roll \<and> randint 8 15 hp_roll \<le> 15"
    by (rule randint_range) simp
  show ?thesis
    using cls st(1) m r k by (simp add: level_up_def Let_def map_of_dict_set)
qed

lemma create_character_rin: "create_character ''Rin'' ''magician'' = Inr rin"
  by (simp add: create_character_def character_classes_def mk_stats_def rin_def)

theorem level_up_effects_witness:
  "map_of character_classes (char_class rin) = Some magician_data
   \<and> set (dict_keys (base_stats magician_data)) \<subseteq> set (dict_keys (stats rin))
   \<and> map_of (stats rin) ''max_hp'' = Some (max_hp rin)
   \<and> (\<exists>c'. level_up rin (\<lambda>_. 0) 3 = Inr c' \<and> level c' = 2 \<and> experience c' = 0
            \<and> experience_to_next c' = 200 \<and> 80 < max_hp c' \<and> max_hp c' \<le> 95
            \<and> current_hp c' = max_hp c')"
proof -
  have h1: "map_of character_classes (char_class rin) = Some magician_data"
    by (simp add: character_classes_def rin_def magician_data_def)
  have h2: "set (dict_keys (base_stats magician_data)) \<subseteq> set (dict_keys (stats rin))"
    by (simp add: rin_def magician_data_def)
  have h3: "map_of (stats rin) ''max_hp'' = Some (max_hp rin)"
    by (simp add: rin_def mk_stats_def)
  from level_up_effects[OF h1 h2 h3, of "\<lambda>_. 0" 3] obtain c' where
    "level_up rin (\<lambda>_. 0) 3 = Inr c'" "level c' = level rin + 1" "experience c' = 0"
    "experience_to_next c' = level c' * 100" "max_hp rin < max_hp c'"
    "max_hp c' - max_hp rin \<le> 15" "current_hp c' = max_hp c'"
    by blast
  then have "level_up rin (\<lambda>_. 0) 3 = Inr c' \<and> level c' = 2 \<and> experience c' = 0
            \<and> experience_to_next c' = 200 \<and> 80 < max_hp c' \<and> max_hp c' \<le> 95
            \<and> current_hp c' = max_hp c'"
    by (simp add: rin_def)
  then show ?thesis using h1 h2 h3 by blast
qed

section \<open>Player attack\<close>

lemma calculate_player_damage_ok:
  assumes "map_of (stats p) ''strength'' = Some s" and "map_of (stats p) ''agility'' = Some a"
  shows "\<exists>dmg. calculate_player_damage p vr cr = Inr dmg"
  using assms by (simp add: calculate_player_damage_def stat_def int_truediv_def Let_def)

text \<open>
  C7. For a combat state whose player has the stats \<open>strength\<close> and \<open>agility\<close> (a character
  of \<open>create_character\<close> has both), \<open>player_attack\<close> returns a state in which the enemy's
  \<open>current_hp\<close> is not negative; when it is 0 the status is \<open>victory\<close> and the turn has not
  moved; otherwise the turn is \<open>enemy\<close> and the status is unchanged. The player and the
  round counter are untouched in both cases: the function processes no further turn.
\<close>

theorem player_attack_outcome:
  assumes "map_of (stats (player cs)) ''strength'' = Some s"
      and "map_of (stats (player cs)) ''agility'' = Some a"
  shows "\<exists>cs'. player_attack cs vr cr = Inr cs'
           \<and> 0 \<le> enemy_current_hp (enemy cs')
           \<and> (enemy_current_hp (enemy cs') = 0 \<longrightarrow>
                 status cs' = ''victory'' \<and> turn cs' = turn cs)
           \<and> (enemy_current_hp (enemy cs') \<noteq> 0 \<longrightarrow>
                 turn cs' = ''enemy'' \<and> status cs' = status cs)
           \<and> player cs' = player cs \<and> round_no cs' = round_no cs"
proof -
  from calculate_player_damage_ok[OF assms] obtain dmg
    where d: "calculate_player_damage (player cs) vr cr = Inr dmg" ..
  show ?thesis
    using d by (auto simp: player_attack_def Let_def)
qed

theorem player_attack_outcome_witness:
  "map_of (stats (player (combat_of rin (rex\<lparr>enemy_current_hp := 1\<rparr>) ''player''))) ''strength''
     = Some 8
   \<and> map_of (stats (player (combat_of rin (rex\<lparr>enemy_current_hp := 1\<rparr>) ''player''))) ''agility''
     = Some 10
   \<and> (\<exists>cs'. player_attack (combat_of rin (rex\<lparr>enemy_current_hp := 1\<rparr>) ''player'') 0 (1 / 2)
               = Inr cs'
          \<and> enemy_current_hp (enemy cs') = 0 \<and> status cs' = ''victory''
          \<and> turn cs' = ''player'' \<and> round_no cs' = 1)"
proof -
  let ?cs = "combat_of rin (rex\<lparr>enemy_current_hp := 1\<rparr>) ''player''"
  have h1: "map_of (stats (player ?cs)) ''strength'' = Some 8"
    by (simp add: combat_of_def rin_def mk_stats_def)
  have h2: "map_of (stats (player ?cs)) ''agility'' = Some 10"
    by (simp add: combat_of_def rin_def mk_stats_def)
  from player_attack_outcome[OF h1 h2, of 0 "1 / 2"] obtain cs' where
    r: "player_attack ?cs 0 (1 / 2) = Inr cs'"
       "enemy_current_hp (enemy cs') = 0 \<longrightarrow> status cs' = ''victory'' \<and> turn cs' = turn ?cs"
       "round_no cs' = round_no ?cs"
    by blast
  have "case player_attack ?cs 0 (1 / 2) of Inl e \<Rightarrow> False
        | Inr cs' \<Rightarrow> enemy_current_hp (enemy cs') = 0"
    by code_simp
  with r have "enemy_current_hp (enemy cs') = 0" by simp
  with r have "player_attack ?cs 0 (1 / 2) = Inr cs'
          \<and> enemy_current_hp (enemy cs') = 0 \<and> status cs' = ''victory''
          \<and> turn cs' = ''player'' \<and> round_no cs' = 1"
    by (simp add: combat_of_def)
  then show ?thesis using h1 h2 by blast
qed

section \<open>Enemy turn\<close>

lemma hit_loop_nonneg:
  "0 \<le> h \<Longrightarrow> 0 \<le> snd (hit_loop n sd df (t, h))"
  by (induction n arbitrary: t h) (simp_all add: Let_def)

lemma apply_effect_hp_nonneg:
  assumes "0 \<le> current_hp (player cs)"
  shows "0 \<le> current_hp (player (apply_effect cs ability eff v))"
proof (cases "damage_multiplier eff")
  case None
  then show ?thesis using assms by (simp add: apply_effect_def Let_def)
next
  case (Some m)
  then show ?thesis
    using hit_loop_nonneg[OF assms]
    by (simp add: apply_effect_def Let_def split_beta)
qed

lemma execute_hp_nonneg:
  assumes "0 \<le> current_hp (player cs)" and "execute_enemy_special_ability cs d = Inr cs1"
  shows "0 \<le> current_hp (player cs1)"
proof (cases "enemy_special_abilities (enemy cs)")
  case None
  then show ?thesis using assms by (simp add: execute_enemy_special_ability_def)
next
  case (Some xs)
  show ?thesis
  proof (cases "xs = []")
    case True
    then show ?thesis using assms Some by (simp add: execute_enemy_special_ability_def)
  next
    case False
    let ?a = "xs ! (ability_roll d mod length xs)"
    let ?cs0 = "cs\<lparr>combat_log := combat_log cs @ [description (lookup_effect (enemy_name (enemy cs)) ?a)]\<rparr>"
    have "cs1 = apply_effect ?cs0 ?a (lookup_effect (enemy_name (enemy cs)) ?a) (variance_roll d)"
      using assms(2) Some False
      by (simp add: execute_enemy_special_ability_def choice_def Let_def)
    moreover have "0 \<le> current_hp (player ?cs0)" using assms(1) by simp
    ultimately show ?thesis using apply_effect_hp_nonneg by simp
  qed
qed

text \<open>
  The plain attack does what the claim says: the player's \<open>current_hp\<close> is not negative
  afterwards, and when it is 0 the state is a defeat and the turn stays with the enemy.
\<close>

lemma enemy_turn_attack_aux:
  assumes "determine_enemy_action (enemy cs) d = Inr ''attack''"
  shows "case enemy_turn cs d of Inl e \<Rightarrow> True
         | Inr cs' \<Rightarrow> 0 \<le> current_hp (player cs')
             \<and> (current_hp (player cs') = 0 \<longrightarrow> status cs' = ''defeat'' \<and> turn cs' = turn cs)"
  using assms by (simp add: enemy_turn_def Let_def) linarith+

lemma enemy_turn_attack:
  assumes "determine_enemy_action (enemy cs) d = Inr ''attack''"
      and "enemy_turn cs d = Inr cs'"
  shows "0 \<le> current_hp (player cs')
         \<and> (current_hp (player cs') = 0 \<longrightarrow> status cs' = ''defeat'' \<and> turn cs' = turn cs)"
  using enemy_turn_attack_aux[OF assms(1)] assms(2) by simp

text \<open>
  What does hold of \<open>enemy_turn\<close> as a whole: a player whose \<open>current_hp\<close> is not
  negative keeps a \<open>current_hp\<close> that is not negative, whatever the enemy does.
\<close>

lemma enemy_turn_hp_nonneg:
  assumes "0 \<le> current_hp (player cs)" and "enemy_turn cs d = Inr cs'"
  shows "0 \<le> current_hp (player cs')"
proof (cases "determine_enemy_action (enemy cs) d")
  case (Inl e)
  then show ?thesis using assms(2) by (simp add: enemy_turn_def Let_def)
next
  case (Inr action)
  consider (attack) "action = ''attack''"
    | (special) "action \<noteq> ''attack''" "action = ''special''"
    | (other) "action \<noteq> ''attack''" "action \<noteq> ''special''"
    by blast
  then show ?thesis
  proof cases
    case attack
    then show ?thesis using enemy_turn_attack[of cs d cs'] Inr assms(2) by simp
  next
    case special
    then obtain cs1 where c: "execute_enemy_special_ability cs d = Inr cs1"
      and r: "cs' = cs1\<lparr>turn := ''player'', round_no := round_no cs1 + 1\<rparr>"
      using Inr assms(2)
      by (cases "execute_enemy_special_ability cs d") (simp_all add: enemy_turn_def Let_def)
    from execute_hp_nonneg[OF assms(1) c] r show ?thesis by simp
  next
    case other
    then have "cs' = cs\<lparr>turn := ''player'', round_no := round_no cs + 1\<rparr>"
      using Inr assms(2) by (simp add: enemy_turn_def Let_def)
    then show ?thesis using assms(1) by simp
  qed
qed

text \<open>
  C1. The special ability does not: a Tyrannosaurus Rex (attack 25) uses Crushing Bite on
  a player with 5 hit points and defense 8. The bite deals 29, the player is at 0, and
  \<open>enemy_turn\<close> returns a state that is still \<open>ongoing\<close> with the turn handed back to the
  player and the round counter advanced.
\<close>

theorem enemy_turn_special_kill_not_defeat:
  "(case enemy_turn (combat_of (rin\<lparr>current_hp := 5\<rparr>) rex ''enemy'') special_draws of
      Inl err \<Rightarrow> False
    | Inr cs' \<Rightarrow> current_hp (player cs') = 0 \<and> status cs' = ''ongoing''
                \<and> turn cs' = ''player'' \<and> round_no cs' = 2)"
  by code_simp

text \<open>
  Every ability of the table that carries the \<open>poison\<close> effect also carries a damage
  multiplier, and \<open>apply_effect\<close> looks at the effect only when there is no multiplier: the
  poison branch is never taken for an ability of the table.
\<close>

lemma poison_has_multiplier:
  "map_of (ability_effects nm) ability = Some eff \<Longrightarrow> effect eff = Some ''poison'' \<Longrightarrow>
   damage_multiplier eff \<noteq> None"
  by (auto simp: ability_effects_def damage_effect_def status_effect_def split: if_splits)

text \<open>
  C8. A Megalania (attack 19) uses Venomous Bite on a player with 80 hit points and
  defense 8: int(19 * 1.2) - 8 = 14 is the whole damage of the turn. The player is left
  with 66, not 61, and the log has no poison entry.
\<close>

theorem venomous_bite_no_poison_damage:
  "(case enemy_turn (combat_of rin megalania ''enemy'') special_draws of
      Inl err \<Rightarrow> False
    | Inr cs' \<Rightarrow> current_hp (player cs') = 66
                \<and> combat_log cs' = [''Megalania bites with venomous fangs!'',
                                     ''Rin takes 14 damage from Venomous Bite!''])"
  by code_simp

section \<open>Quest rewards\<close>

lemma generate_reward_items_ok: "\<exists>items. generate_reward_items c d = Inr items"
proof -
  have "1 \<le> randint 1 2 (count_roll d) \<and> randint 1 2 (count_roll d) \<le> 2"
    by (rule randint_range) simp
  then show ?thesis
    by (simp add: generate_reward_items_def sample_def Let_def)
qed

text \<open>
  C5. For a creature of one of the four difficulties, \<open>_calculate_rewards\<close> returns, and
  the gold and the experience are int((50 + level * 25) * m) and int((40 + level * 20) * m)
  for m the multiplier of the difficulty times the modifier of the template, whatever
  the draws for the items.
\<close>

theorem calculate_rewards_formula:
  assumes "difficulty c \<in> {''easy'', ''medium'', ''hard'', ''legendary''}"
  shows "\<exists>r. calculate_rewards p c modifier d = Inr r
           \<and> reward_gold r =
               py_int (fmul (float_of_int (50 + level p * 25))
                            (fmul (spec_difficulty_multiplier (difficulty c)) modifier))
           \<and> reward_experience r =
               py_int (fmul (float_of_int (40 + level p * 20))
                            (fmul (spec_difficulty_multiplier (difficulty c)) modifier))"
proof -
  have m: "get_or difficulty_multipliers (difficulty c) (fl 1)
             = spec_difficulty_multiplier (difficulty c)"
    using assms
    by (auto simp: get_or_def difficulty_multipliers_def spec_difficulty_multiplier_def)
  obtain items where i: "generate_reward_items c d = Inr items"
    using generate_reward_items_ok by blast
  show ?thesis
    by (simp add: calculate_rewards_def Let_def m i)
qed

theorem calculate_rewards_formula_witness:
  "difficulty saber_tooth \<in> {''easy'', ''medium'', ''hard'', ''legendary''}
   \<and> (\<exists>r. calculate_rewards (rin\<lparr>level := 3\<rparr>) saber_tooth (fl 1) no_items = Inr r
          \<and> reward_gold r = 125 \<and> reward_experience r = 100)"
proof -
  have h: "difficulty saber_tooth \<in> {''easy'', ''medium'', ''hard'', ''legendary''}"
    by (simp add: saber_tooth_def template_def)
  have g: "py_int (fmul (float_of_int (50 + 3 * 25))
                    (fmul (spec_difficulty_multiplier ''medium'') (fl 1))) = 125"
    by code_simp
  have e: "py_int (fmul (float_of_int (40 + 3 * 20))
                    (fmul (spec_difficulty_multiplier ''medium'') (fl 1))) = 100"
    by code_simp
  have d: "difficulty saber_tooth = ''medium''"
    by (simp add: saber_tooth_def template_def)
  from calculate_rewards_formula[OF h, of "rin\<lparr>level := 3\<rparr>" "fl 1" no_items]
  obtain r where "calculate_rewards (rin\<lparr>level := 3\<rparr>) saber_tooth (fl 1) no_items = Inr r"
    "reward_gold r =
       py_int (fmul (float_of_int (50 + level (rin\<lparr>level := 3\<rparr>) * 25))
                    (fmul (spec_difficulty_multiplier (difficulty saber_tooth)) (fl 1)))"
    "reward_experience r =
       py_int (fmul (float_of_int (40 + level (rin\<lparr>level := 3\<rparr>) * 20))
                    (fmul (spec_difficulty_multiplier (difficulty saber_tooth)) (fl 1)))"
    by blast
  then have "calculate_rewards (rin\<lparr>level := 3\<rparr>) saber_tooth (fl 1) no_items = Inr r
          \<and> reward_gold r = 125 \<and> reward_experience r = 100"
    using g e d by simp
  then show ?thesis using h by blast
qed

section \<open>Creature templates\<close>

text \<open>
  The solo path cannot touch a template: \<open>select_creature_for_player\<close> has no access to
  the lists of abilities and returns a new dictionary. The team path is safe only for a
  party of fewer than three.
\<close>

lemma scale_small_party_keeps_store:
  "num_players < 3 \<Longrightarrow> fst (scale_creature_for_multiplayer st c num_players dm) = st"
  by (simp add: scale_creature_for_multiplayer_def Let_def)

text \<open>
  The instance of \<open>select_creature_for_player\<close> refers to the list of abilities of the
  template it was copied from, and for a party of three or more
  \<open>scale_creature_for_multiplayer\<close> appends to that list.
\<close>

lemma select_creature_shares_abilities:
  assumes "select_creature_for_player ancient_creatures lvl pick = Inr c"
  shows "\<exists>t\<in>set ancient_creatures.
           special_abilities c = special_abilities t \<and> creature_name c = creature_name t"
proof -
  let ?suitable =
    "if lvl \<le> 2 then filter (\<lambda>c. difficulty c = ''easy'') ancient_creatures
     else if lvl \<le> 5
       then filter (\<lambda>c. difficulty c \<in> set [''easy'', ''medium'']) ancient_creatures
     else if lvl \<le> 8
       then filter (\<lambda>c. difficulty c \<in> set [''medium'', ''hard'']) ancient_creatures
     else ancient_creatures"
  from assms obtain t where t: "choice ?suitable pick = Inr t"
    and c: "special_abilities c = special_abilities t" "creature_name c = creature_name t"
    by (cases "choice ?suitable pick")
       (auto simp: select_creature_for_player_def Let_def)
  from t have "t \<in> set ?suitable"
    by (rule choice_mem)
  then have "t \<in> set ancient_creatures"
    by (auto split: if_splits)
  with c show ?thesis by blast
qed

lemma scale_appends_to_shared_list:
  assumes "3 \<le> num_players"
  shows "fst (scale_creature_for_multiplayer st c num_players dm) (special_abilities c)
           = st (special_abilities c)
             @ (if 4 \<le> num_players then [''Area Attack'', ''Regeneration'']
                else [''Area Attack''])"
  using assms by (simp add: scale_creature_for_multiplayer_def Let_def)

text \<open>
  C2. A team quest for a party of three (average level 1, so the first easy creature, the
  Giant Ground Sloth, under the \<open>raid\<close> template): the instance handed out as the target
  shares its list of abilities with the template of the bestiary, and after the call the
  template's own list reads Heavy Slam, Thick Hide, Area Attack.
\<close>

theorem team_quest_mutates_template:
  "(case generate_multiplayer_quest empty_store 0 party_of_three team_quest_draws of
      Inl e \<Rightarrow> False
    | Inr (st, ancient_creatures, q) \<Rightarrow>
        creature_name (ancient_creatures ! 4) = ''Giant Ground Sloth''
        \<and> creature_name (target q) = ''Giant Ground Sloth''
        \<and> fst (initialize_ancient_creatures 0 empty_store) (special_abilities (ancient_creatures ! 4))
            = [''Heavy Slam'', ''Thick Hide'']
        \<and> st (special_abilities (ancient_creatures ! 4))
            = [''Heavy Slam'', ''Thick Hide'', ''Area Attack''])"
  by code_simp

section \<open>Sessions\<close>

text \<open>
  C4, as the code has it. \<open>create_session\<close> checks nothing: for every \<open>max_players\<close> it
  returns the session id, stores a session with status \<open>waiting\<close>, the roster \<open>[host]\<close> and
  the given \<open>max_players\<close>, and maps the host's name to the id.
\<close>

theorem create_session_unvalidated:
  "fst (create_session ms host maxp sid now) = sid
   \<and> map_of (active_sessions (snd (create_session ms host maxp sid now))) sid
       = Some \<lparr>session_id = sid, host_player = name host, players = [host],
               max_players = maxp, session_status = ''waiting'', created_at = now,
               current_quest = None, shared_story_context = []\<rparr>
   \<and> map_of (player_sessions (snd (create_session ms host maxp sid now))) (name host) = Some sid"
  by (simp add: create_session_def map_of_dict_set)

text \<open>
  C4 as stated fails: \<open>create_session\<close> with \<open>max_players = 1\<close> creates the session and
  the index entry.
\<close>

theorem create_session_accepts_one:
  "map_of (active_sessions (snd (create_session new_multiplayer_system (hero ''Alice'') 1
                                   ''AAAAAAAA'' 0))) ''AAAAAAAA'' \<noteq> None
   \<and> map_of (player_sessions (snd (create_session new_multiplayer_system (hero ''Alice'') 1
                                     ''AAAAAAAA'' 0))) ''Alice'' = Some ''AAAAAAAA''"
  by (simp add: create_session_def new_multiplayer_system_def hero_def)

text \<open>
  The guard of \<open>join_session\<close>: it returns false exactly when the session id is unknown,
  or the roster has at least \<open>max_players\<close> members, or the status is not \<open>waiting\<close>, or
  the player's name is already in the index; and then the state is unchanged.
\<close>

lemma join_session_guard:
  "(\<not> fst (join_session ms sid p)) = join_refusal ms sid p
   \<and> (\<not> fst (join_session ms sid p) \<longrightarrow> snd (join_session ms sid p) = ms)"
  by (simp add: join_session_def join_refusal_def split: option.splits)

text \<open>
  No roster outgrows its session: every operation keeps the invariant, so it holds in
  every state built from the empty manager with sessions created for at least one player.
\<close>

lemma set_dict_set_subset: "set (dict_set d k v) \<subseteq> insert (k, v) (set d)"
  by (induction d) (auto split: if_splits)

lemma set_dict_del_subset: "set (dict_del d k) \<subseteq> set d"
  by (auto simp: dict_del_def)

lemma within_capacity_iff:
  "rosters_within_capacity ms =
     (\<forall>(sid, session)\<in>set (active_sessions ms).
         int (length (players session)) \<le> max_players session)"
  by (simp add: rosters_within_capacity_def list_all_iff)

lemma within_capacity_lookup:
  assumes "rosters_within_capacity ms" and "map_of (active_sessions ms) sid = Some session"
  shows "int (length (players session)) \<le> max_players session"
  using assms map_of_SomeD[OF assms(2)] by (auto simp: within_capacity_iff)

lemma within_capacity_set:
  assumes "rosters_within_capacity ms"
      and "int (length (players session)) \<le> max_players session"
  shows "rosters_within_capacity
           (ms\<lparr>active_sessions := dict_set (active_sessions ms) sid session, player_sessions := ix\<rparr>)"
  using assms set_dict_set_subset[of "active_sessions ms" sid session]
  by (auto simp: within_capacity_iff)

lemma within_capacity_del:
  assumes "rosters_within_capacity ms"
  shows "rosters_within_capacity
           (ms\<lparr>active_sessions := dict_del (active_sessions ms) sid, player_sessions := ix\<rparr>)"
  using assms set_dict_del_subset[of "active_sessions ms" sid]
  by (auto simp: within_capacity_iff)

lemma create_session_within_capacity:
  assumes "rosters_within_capacity ms" and "1 \<le> maxp"
  shows "rosters_within_capacity (snd (create_session ms host maxp sid now))"
proof -
  let ?session = "\<lparr>session_id = sid, host_player = name host, players = [host],
                    max_players = maxp, session_status = ''waiting'', created_at = now,
                    current_quest = None, shared_story_context = []\<rparr>"
  have "rosters_within_capacity
          (ms\<lparr>active_sessions := dict_set (active_sessions ms) sid ?session,
             player_sessions := dict_set (player_sessions ms) (name host) sid\<rparr>)"
    by (rule within_capacity_set[OF assms(1)]) (simp add: assms(2))
  then show ?thesis by (simp add: create_session_def)
qed

lemma join_session_within_capacity:
  assumes "rosters_within_capacity ms"
  shows "rosters_within_capacity (snd (join_session ms sid p))"
proof (cases "fst (join_session ms sid p)")
  case False
  then show ?thesis using join_session_guard[of ms sid p] assms by simp
next
  case True
  then obtain session where s: "map_of (active_sessions ms) sid = Some session"
    and room: "\<not> max_players session \<le> int (length (players session))"
    and r: "snd (join_session ms sid p) =
              ms\<lparr>active_sessions := dict_set (active_sessions ms) sid
                                       (session\<lparr>players := players session @ [p]\<rparr>),
                 player_sessions := dict_set (player_sessions ms) (name p) sid\<rparr>"
    by (auto simp: join_session_def split: option.splits if_splits)
  from room have "int (length (players (session\<lparr>players := players session @ [p]\<rparr>)))
                    \<le> max_players (session\<lparr>players := players session @ [p]\<rparr>)"
    by simp
  from within_capacity_set[OF assms this] r show ?thesis by simp
qed

lemma start_session_within_capacity:
  assumes "rosters_within_capacity ms"
  shows "rosters_within_capacity (snd (start_session ms sid))"
proof (cases "map_of (active_sessions ms) sid")
  case None
  then show ?thesis using assms by (simp add: start_session_def)
next
  case (Some session)
  have c: "int (length (players (session\<lparr>session_status := ''in_progress''\<rparr>)))
             \<le> max_players (session\<lparr>session_status := ''in_progress''\<rparr>)"
    using within_capacity_lookup[OF assms Some] by simp
  have "rosters_within_capacity
          (ms\<lparr>active_sessions := dict_set (active_sessions ms) sid
                                   (session\<lparr>session_status := ''in_progress''\<rparr>),
             player_sessions := player_sessions ms\<rparr>)"
    by (rule within_capacity_set[OF assms c])
  then show ?thesis using Some assms by (simp add: start_session_def)
qed

lemma leave_session_within_capacity:
  assumes "rosters_within_capacity ms" and "leave_session ms player_name = Inr (b, ms')"
  shows "rosters_within_capacity ms'"
proof (cases "map_of (player_sessions ms) player_name")
  case None
  then show ?thesis using assms by (simp add: leave_session_def)
next
  case (Some sid)
  then obtain session where s: "map_of (active_sessions ms) sid = Some session"
    using assms(2) by (cases "map_of (active_sessions ms) sid") (simp_all add: leave_session_def)
  let ?remaining = "filter (\<lambda>p. name p \<noteq> player_name) (players session)"
  have len: "int (length ?remaining) \<le> max_players session"
  proof -
    have "length ?remaining \<le> length (players session)" by simp
    then have "int (length ?remaining) \<le> int (length (players session))" by simp
    with within_capacity_lookup[OF assms(1) s] show ?thesis by linarith
  qed
  have set_case: "rosters_within_capacity
      (ms\<lparr>active_sessions := dict_set (active_sessions ms) sid
                               (session\<lparr>players := ?remaining, host_player := h\<rparr>),
         player_sessions := ix\<rparr>)" for h ix
    by (rule within_capacity_set[OF assms(1)]) (simp add: len)
  have set_case': "rosters_within_capacity
      (ms\<lparr>active_sessions := dict_set (active_sessions ms) sid (session\<lparr>players := ?remaining\<rparr>),
         player_sessions := ix\<rparr>)" for ix
    by (rule within_capacity_set[OF assms(1)]) (simp add: len)
  have del_case: "rosters_within_capacity
      (ms\<lparr>active_sessions := dict_del (active_sessions ms) sid, player_sessions := ix\<rparr>)" for ix
    by (rule within_capacity_del[OF assms(1)])
  show ?thesis
    using assms(2) Some s set_case set_case' del_case
    by (auto simp: leave_session_def Let_def split: list.splits if_splits)
qed

lemma remove_expired_within_capacity:
  "rosters_within_capacity ms \<Longrightarrow> remove_expired sids ms = Inr ms' \<Longrightarrow>
   rosters_within_capacity ms'"
proof (induction sids arbitrary: ms)
  case Nil
  then show ?case by simp
next
  case (Cons sid sids)
  from Cons.prems(2) obtain session where s: "map_of (active_sessions ms) sid = Some session"
    by (cases "map_of (active_sessions ms) sid") simp_all
  let ?ms1 = "ms\<lparr>player_sessions := remove_player_mappings (players session) (player_sessions ms),
                  active_sessions := dict_del (active_sessions ms) sid\<rparr>"
  have "rosters_within_capacity ?ms1"
    using Cons.prems(1) set_dict_del_subset[of "active_sessions ms" sid]
    by (auto simp: within_capacity_iff)
  moreover have "remove_expired sids ?ms1 = Inr ms'"
    using Cons.prems(2) s by simp
  ultimately show ?case by (rule Cons.IH)
qed

lemma cleanup_within_capacity:
  assumes "rosters_within_capacity ms"
      and "cleanup_expired_sessions ms current_time max_age_hours = Inr (n, ms')"
  shows "rosters_within_capacity ms'"
  using assms remove_expired_within_capacity[OF assms(1)]
  by (auto simp: cleanup_expired_sessions_def Let_def split: sum.splits)

lemma reachable_within_capacity:
  "reachable_with_capacity ms \<Longrightarrow> rosters_within_capacity ms"
proof (induction rule: reachable_with_capacity.induct)
  case initial
  then show ?case by (simp add: rosters_within_capacity_def new_multiplayer_system_def)
next
  case (create ms maxp host sid now)
  then show ?case by (simp add: create_session_within_capacity)
next
  case (join ms sid p)
  then show ?case by (simp add: join_session_within_capacity)
next
  case (leave ms player_name b ms')
  then show ?case using leave_session_within_capacity by blast
next
  case (start ms sid)
  then show ?case by (simp add: start_session_within_capacity)
next
  case (cleanup ms current_time max_age_hours n ms')
  then show ?case using cleanup_within_capacity by blast
qed

lemma full_lobby_reachable: "reachable_with_capacity full_lobby"
  unfolding full_lobby_def lobby_def
  by (intro reachable_with_capacity.join reachable_with_capacity.create
        reachable_with_capacity.initial) simp

text \<open>
  C3. In a state where no roster is larger than its \<open>max_players\<close>, \<open>join_session\<close>
  returns false if and only if the session id is unknown, or the roster is full (its size
  equals \<open>max_players\<close>), or the status is not \<open>waiting\<close>, or the player's name is already
  mapped to a session; and whenever it returns false the state, roster and index
  included, is unchanged.
\<close>

theorem join_session_refusal_conditions:
  assumes "rosters_within_capacity ms"
  shows "(\<not> fst (join_session ms sid p)) = claimed_join_refusal ms sid p
         \<and> (\<not> fst (join_session ms sid p) \<longrightarrow> snd (join_session ms sid p) = ms)"
proof -
  have "join_refusal ms sid p = claimed_join_refusal ms sid p"
  proof (cases "map_of (active_sessions ms) sid")
    case None
    then show ?thesis by (simp add: join_refusal_def claimed_join_refusal_def)
  next
    case (Some session)
    from within_capacity_lookup[OF assms Some]
    have "(max_players session \<le> int (length (players session)))
            = (int (length (players session)) = max_players session)"
      by auto
    with Some show ?thesis by (simp add: join_refusal_def claimed_join_refusal_def)
  qed
  with join_session_guard[of ms sid p] show ?thesis by simp
qed

theorem join_session_refusal_conditions_witness:
  "rosters_within_capacity full_lobby
   \<and> claimed_join_refusal full_lobby ''AAAAAAAA'' (hero ''Carol'')
   \<and> \<not> fst (join_session full_lobby ''AAAAAAAA'' (hero ''Carol''))
   \<and> snd (join_session full_lobby ''AAAAAAAA'' (hero ''Carol'')) = full_lobby"
proof -
  have h: "rosters_within_capacity full_lobby"
    using full_lobby_reachable by (rule reachable_within_capacity)
  have c: "claimed_join_refusal full_lobby ''AAAAAAAA'' (hero ''Carol'')"
    by (simp add: claimed_join_refusal_def full_lobby_def join_session_def lobby_def
          create_session_def new_multiplayer_system_def hero_def)
  from join_session_refusal_conditions[OF h, of "''AAAAAAAA''" "hero ''Carol''"] c
  have "\<not> fst (join_session full_lobby ''AAAAAAAA'' (hero ''Carol''))
        \<and> snd (join_session full_lobby ''AAAAAAAA'' (hero ''Carol'')) = full_lobby"
    by blast
  with h c show ?thesis by blast
qed

text \<open>
  C10. \<open>join_session\<close> refuses a player whose name is in the index; \<open>create_session\<close>
  does not look. After Alice creates two sessions she is on both rosters and the index
  knows only the second.
\<close>

theorem host_on_two_rosters:
  "\<not> on_at_most_one_roster two_lobbies ''Alice'' \<and> \<not> index_exact two_lobbies ''Alice''
   \<and> sessions_with two_lobbies ''Alice'' = [''AAAAAAAA'', ''BBBBBBBB'']
   \<and> map_of (player_sessions two_lobbies) ''Alice'' = Some ''BBBBBBBB''"
  by (simp add: on_at_most_one_roster_def index_exact_def sessions_with_def two_lobbies_def
        lobby_def create_session_def new_multiplayer_system_def hero_def)

lemma two_lobbies_reachable: "reachable two_lobbies"
  unfolding two_lobbies_def lobby_def
  by (intro reachable.create reachable.initial)

section \<open>Turn order\<close>

lemma agilities_ok:
  "\<forall>p\<in>set ps. map_of (stats p) ''agility'' \<noteq> None \<Longrightarrow>
   agilities ps = Inr (map (\<lambda>p. stat_or_0 p ''agility'') ps)"
  by (induction ps) (auto simp: stat_def stat_or_0_def)

lemma interleave_enemy_concat:
  "interleave_enemy ns = concat (map (\<lambda>n. [n, ''enemy'']) ns)"
  by (induction ns) simp_all

lemma sort_keyed_players:
  fixes key :: "'a \<Rightarrow> int"
  shows "mset (map snd (sort_key (\<lambda>kp. - fst kp) (zip (map key ps) ps))) = mset ps
         \<and> sorted_wrt (\<lambda>p q. key q \<le> key p)
               (map snd (sort_key (\<lambda>kp. - fst kp) (zip (map key ps) ps)))"
proof -
  let ?zs = "zip (map key ps) ps"
  let ?S = "sort_key (\<lambda>kp. - fst kp) ?zs"
  have zs: "?zs = map (\<lambda>p. (key p, p)) ps"
    by (induction ps) simp_all
  have "mset (map snd ?S) = image_mset snd (mset ?zs)" by simp
  also have "\<dots> = mset ps" by (simp add: zs image_mset.compositionality comp_def)
  finally have m: "mset (map snd ?S) = mset ps" .
  have keyed: "\<forall>kp\<in>set ?S. fst kp = key (snd kp)"
    by (auto simp: zs)
  have "sorted (map (\<lambda>kp. - fst kp) ?S)" by (rule sorted_sort_key)
  then have sw: "sorted_wrt (\<lambda>a b. - fst a \<le> - fst b) ?S"
    by (simp add: sorted_map)
  have "sorted_wrt (\<lambda>a b. key (snd b) \<le> key (snd a)) ?S"
  proof (rule sorted_wrt_mono_rel[OF _ sw])
    fix a b
    assume ab: "a \<in> set ?S" "b \<in> set ?S" and le: "- fst a \<le> - fst b"
    from ab keyed have "fst a = key (snd a)" "fst b = key (snd b)" by blast+
    with le show "key (snd b) \<le> key (snd a)" by simp
  qed
  then have "sorted_wrt (\<lambda>p q. key q \<le> key p) (map snd ?S)"
    by (simp add: sorted_wrt_map)
  with m show ?thesis by simp
qed

text \<open>
  C9. When every player has the stat \<open>agility\<close>, the turn order is the names of the players
  in an order that is a permutation of the roster with agility descending, each name
  followed by \<open>enemy\<close>; for two players of agility 20 and 10, in either roster order, it
  is the name of the first, \<open>enemy\<close>, the name of the second, \<open>enemy\<close>.
\<close>

theorem turn_order_sorted_interleaved:
  "((\<forall>p\<in>set ps. map_of (stats p) ''agility'' \<noteq> None) \<longrightarrow>
      (\<exists>sorted_players.
          determine_turn_order ps
            = Inr (concat (map (\<lambda>p. [name p, ''enemy'']) sorted_players))
          \<and> mset sorted_players = mset ps
          \<and> sorted_wrt (\<lambda>p q. stat_or_0 q ''agility'' \<le> stat_or_0 p ''agility'')
                        sorted_players))
   \<and> (map_of (stats hi) ''agility'' = Some 20 \<and> map_of (stats lo) ''agility'' = Some 10 \<longrightarrow>
        determine_turn_order [hi, lo] = Inr [name hi, ''enemy'', name lo, ''enemy'']
        \<and> determine_turn_order [lo, hi] = Inr [name hi, ''enemy'', name lo, ''enemy''])"
proof (intro conjI impI)
  assume a: "\<forall>p\<in>set ps. map_of (stats p) ''agility'' \<noteq> None"
  let ?key = "\<lambda>p. stat_or_0 p ''agility''"
  let ?s = "map snd (sort_key (\<lambda>kp. - fst kp) (zip (map ?key ps) ps))"
  have "determine_turn_order ps = Inr (concat (map (\<lambda>p. [name p, ''enemy'']) ?s))"
    by (simp add: determine_turn_order_def agilities_ok[OF a] interleave_enemy_concat
          Let_def comp_def)
  moreover have "mset ?s = mset ps \<and> sorted_wrt (\<lambda>p q. ?key q \<le> ?key p) ?s"
    by (rule sort_keyed_players)
  ultimately show "\<exists>sorted_players.
          determine_turn_order ps
            = Inr (concat (map (\<lambda>p. [name p, ''enemy'']) sorted_players))
          \<and> mset sorted_players = mset ps
          \<and> sorted_wrt (\<lambda>p q. stat_or_0 q ''agility'' \<le> stat_or_0 p ''agility'')
                        sorted_players"
    by blast
next
  assume "map_of (stats hi) ''agility'' = Some 20 \<and> map_of (stats lo) ''agility'' = Some 10"
  then show "determine_turn_order [hi, lo] = Inr [name hi, ''enemy'', name lo, ''enemy'']"
    by (simp add: determine_turn_order_def stat_def)
next
  assume "map_of (stats hi) ''agility'' = Some 20 \<and> map_of (stats lo) ''agility'' = Some 10"
  then show "determine_turn_order [lo, hi] = Inr [name hi, ''enemy'', name lo, ''enemy'']"
    by (simp add: determine_turn_order_def stat_def)
qed

theorem turn_order_sorted_interleaved_witness:
  "map_of (stats kai) ''agility'' = Some 20 \<and> map_of (stats rin) ''agility'' = Some 10
   \<and> determine_turn_order [rin, kai] = Inr [''Kai'', ''enemy'', ''Rin'', ''enemy'']
   \<and> (\<exists>sorted_players.
          determine_turn_order [rin, kai]
            = Inr (concat (map (\<lambda>p. [name p, ''enemy'']) sorted_players))
          \<and> mset sorted_players = mset [rin, kai])"
proof -
  have h1: "map_of (stats kai) ''agility'' = Some 20"
    by (simp add: kai_def mk_stats_def)
  have h2: "map_of (stats rin) ''agility'' = Some 10"
    by (simp add: rin_def mk_stats_def)
  have h0: "\<forall>p\<in>set [rin, kai]. map_of (stats p) ''agility'' \<noteq> None"
    using h1 h2 by simp
  note t = turn_order_sorted_interleaved[of "[rin, kai]" kai rin]
  from t h1 h2 have "determine_turn_order [rin, kai] = Inr [name kai, ''enemy'', name rin, ''enemy'']"
    by blast
  then have r: "determine_turn_order [rin, kai] = Inr [''Kai'', ''enemy'', ''Rin'', ''enemy'']"
    by (simp add: rin_def kai_def)
  from t h0 have "\<exists>sorted_players.
          determine_turn_order [rin, kai]
            = Inr (concat (map (\<lambda>p. [name p, ''enemy'']) sorted_players))
          \<and> mset sorted_players = mset [rin, kai]"
    by blast
  with h1 h2 r show ?thesis by blast
qed

end
